theory Spec2Isabelle
  imports Complex_Main
begin

section \<open>Errors\<close>

text \<open>
  Every Python exception the modelled code can raise is a value of \<open>error\<close>; a fallible
  computation returns \<open>error + 'a\<close>, with \<open>Inl\<close> for the raised exception.
\<close>

datatype error =
    AssertionError string
  | IndexError
  | RuntimeError
  | ValueError
  | AttributeError

definition bindE :: "error + 'a \<Rightarrow> ('a \<Rightarrow> error + 'b) \<Rightarrow> error + 'b" where
  "bindE m f = (case m of Inl e \<Rightarrow> Inl e | Inr x \<Rightarrow> f x)"

section \<open>Tensors\<close>

text \<open>
  A tensor is its shape and its elements in row-major (contiguous) order, as torch stores
  a freshly built tensor. The rank is dynamic, as in torch: indexing a tensor with more
  indices than it has dimensions is an \<open>IndexError\<close>, not a type error.
\<close>

record 'a tensor =
  shape :: "nat list"
  data :: "'a list"

definition wf_tensor :: "'a tensor \<Rightarrow> bool" where
  "wf_tensor t = (length (data t) = prod_list (shape t))"

fun unravel :: "nat list \<Rightarrow> nat \<Rightarrow> nat list" where
  "unravel [] k = []"
| "unravel (d # ds) k = (k div prod_list ds) # unravel ds (k mod prod_list ds)"

fun ravel :: "nat list \<Rightarrow> nat list \<Rightarrow> nat" where
  "ravel (d # ds) (i # js) = i * prod_list ds + ravel ds js"
| "ravel _ _ = 0"

definition valid_index :: "nat list \<Rightarrow> nat list \<Rightarrow> bool" where
  "valid_index sh idx = list_all2 (\<lambda>i d. i < d) idx sh"

definition elem :: "'a tensor \<Rightarrow> nat list \<Rightarrow> 'a" where
  "elem t idx = data t ! ravel (shape t) idx"

definition tabulate :: "nat list \<Rightarrow> (nat list \<Rightarrow> 'a) \<Rightarrow> 'a tensor" where
  "tabulate sh f = \<lparr>shape = sh, data = map (\<lambda>k. f (unravel sh k)) [0..<prod_list sh]\<rparr>"

definition row_len :: "'a tensor \<Rightarrow> nat" where
  "row_len t = (if shape t = [] then 1 else last (shape t))"

definition row :: "'a tensor \<Rightarrow> nat \<Rightarrow> 'a list" where
  "row t r = take (row_len t) (drop (r * row_len t) (data t))"

definition arange :: "int \<Rightarrow> error + int tensor" where
  "arange n = (if n < 0 then Inl RuntimeError
               else Inr \<lparr>shape = [nat n], data = map int [0..<nat n]\<rparr>)"

subsection \<open>Indexing\<close>

text \<open>
  Python index expressions \<open>t[a, b, ...]\<close>: each item is an integer (negative counts from
  the end), a slice \<open>lo:hi\<close>, a bare colon, \<open>None\<close> (a new axis), a list of integers, or
  an ellipsis. More indices than dimensions, or an integer out of range, raise
  \<open>IndexError\<close>; a slice never raises, its bounds are clamped.
\<close>

datatype index_item =
    Colon
  | Idx int
  | Slice "int option" "int option"
  | NewAxis
  | ListIdx "int list"
  | Ellipsis

definition norm_index :: "nat \<Rightarrow> int \<Rightarrow> error + nat" where
  "norm_index n i = (if - int n \<le> i \<and> i < int n
                     then Inr (nat (if i < 0 then i + int n else i)) else Inl IndexError)"

definition insert_at :: "nat \<Rightarrow> 'a \<Rightarrow> 'a list \<Rightarrow> 'a list" where
  "insert_at d x xs = take d xs @ x # drop d xs"

definition remove_at :: "nat \<Rightarrow> 'a list \<Rightarrow> 'a list" where
  "remove_at d xs = take d xs @ drop (Suc d) xs"

definition select :: "'a tensor \<Rightarrow> nat \<Rightarrow> int \<Rightarrow> error + 'a tensor" where
  "select t d i =
     (if length (shape t) \<le> d then Inl IndexError
      else bindE (norm_index (shape t ! d) i) (\<lambda>k.
        Inr (tabulate (remove_at d (shape t)) (\<lambda>idx. elem t (insert_at d k idx)))))"

definition slice_bound :: "nat \<Rightarrow> int \<Rightarrow> nat" where
  "slice_bound n i = (if i < 0 then nat (int n + i) else min n (nat i))"

definition slice :: "'a tensor \<Rightarrow> nat \<Rightarrow> int option \<Rightarrow> int option \<Rightarrow> error + 'a tensor" where
  "slice t d start stop =
     (if length (shape t) \<le> d then Inl IndexError
      else let n = shape t ! d;
               lo = (case start of None \<Rightarrow> 0 | Some a \<Rightarrow> slice_bound n a);
               hi = (case stop of None \<Rightarrow> n | Some b \<Rightarrow> slice_bound n b)
           in Inr (tabulate ((shape t)[d := hi - lo]) (\<lambda>idx. elem t (idx[d := idx ! d + lo]))))"

definition index_list :: "'a tensor \<Rightarrow> nat \<Rightarrow> int list \<Rightarrow> error + 'a tensor" where
  "index_list t d js =
     (if length (shape t) \<le> d then Inl IndexError
      else let n = shape t ! d in
        if list_all (\<lambda>j. - int n \<le> j \<and> j < int n) js
        then Inr (tabulate ((shape t)[d := length js])
                    (\<lambda>idx. elem t (idx[d := nat (let j = js ! (idx ! d) in
                                                  if j < 0 then j + int n else j)])))
        else Inl IndexError)"

definition unsqueeze :: "'a tensor \<Rightarrow> int \<Rightarrow> error + 'a tensor" where
  "unsqueeze t d =
     (let r = int (length (shape t)) in
      if - (r + 1) \<le> d \<and> d \<le> r
      then Inr \<lparr>shape = insert_at (nat (if d < 0 then d + r + 1 else d)) 1 (shape t), data = data t\<rparr>
      else Inl IndexError)"

fun consumes :: "index_item \<Rightarrow> bool" where
  "consumes NewAxis = False"
| "consumes Ellipsis = False"
| "consumes _ = True"

fun getitem_at :: "nat \<Rightarrow> index_item list \<Rightarrow> 'a tensor \<Rightarrow> error + 'a tensor" where
  "getitem_at d [] t = Inr t"
| "getitem_at d (Colon # items) t = getitem_at (Suc d) items t"
| "getitem_at d (Idx i # items) t = bindE (select t d i) (getitem_at d items)"
| "getitem_at d (Slice a b # items) t = bindE (slice t d a b) (getitem_at (Suc d) items)"
| "getitem_at d (NewAxis # items) t = bindE (unsqueeze t (int d)) (getitem_at (Suc d) items)"
| "getitem_at d (ListIdx js # items) t = bindE (index_list t d js) (getitem_at (Suc d) items)"
| "getitem_at d (Ellipsis # items) t =
     getitem_at (length (shape t) - length (filter consumes items)) items t"

definition getitem :: "'a tensor \<Rightarrow> index_item list \<Rightarrow> error + 'a tensor" where
  "getitem t items = (if length (shape t) < length (filter consumes items) then Inl IndexError
                      else getitem_at 0 items t)"

subsection \<open>Elementwise operations and broadcasting\<close>

definition map_tensor :: "('a \<Rightarrow> 'b) \<Rightarrow> 'a tensor \<Rightarrow> 'b tensor" where
  "map_tensor f t = \<lparr>shape = shape t, data = map f (data t)\<rparr>"

fun broadcast_rev :: "nat list \<Rightarrow> nat list \<Rightarrow> error + nat list" where
  "broadcast_rev [] ys = Inr ys"
| "broadcast_rev (x # xs) [] = Inr (x # xs)"
| "broadcast_rev (x # xs) (y # ys) =
     (if x = y \<or> y = 1 then bindE (broadcast_rev xs ys) (\<lambda>r. Inr (x # r))
      else if x = 1 then bindE (broadcast_rev xs ys) (\<lambda>r. Inr (y # r))
      else Inl RuntimeError)"

definition broadcast_shapes :: "nat list \<Rightarrow> nat list \<Rightarrow> error + nat list" where
  "broadcast_shapes a b = bindE (broadcast_rev (rev a) (rev b)) (\<lambda>r. Inr (rev r))"

definition belem :: "'a tensor \<Rightarrow> nat list \<Rightarrow> 'a" where
  "belem t idx = elem t (map2 (\<lambda>d i. if d = 1 then 0 else i) (shape t)
                              (drop (length idx - length (shape t)) idx))"

definition binop :: "('a \<Rightarrow> 'b \<Rightarrow> 'c) \<Rightarrow> 'a tensor \<Rightarrow> 'b tensor \<Rightarrow> error + 'c tensor" where
  "binop f a b = bindE (broadcast_shapes (shape a) (shape b)) (\<lambda>sh.
     Inr (tabulate sh (\<lambda>idx. f (belem a idx) (belem b idx))))"

definition masked_fill :: "'a tensor \<Rightarrow> bool tensor \<Rightarrow> 'a \<Rightarrow> error + 'a tensor" where
  "masked_fill t m v = bindE (broadcast_shapes (shape t) (shape m)) (\<lambda>sh.
     if sh = shape t then Inr (tabulate sh (\<lambda>idx. if belem m idx then v else elem t idx))
     else Inl RuntimeError)"

definition masked_assign :: "'a tensor \<Rightarrow> bool tensor \<Rightarrow> 'a \<Rightarrow> error + 'a tensor" where
  "masked_assign t m v = (if shape m = shape t
     then Inr \<lparr>shape = shape t, data = map2 (\<lambda>x b. if b then v else x) (data t) (data m)\<rparr>
     else Inl IndexError)"

subsection \<open>Shapes: size, view, reshape, repeat, cat\<close>

definition size_at :: "'a tensor \<Rightarrow> nat \<Rightarrow> error + nat" where
  "size_at t i = (if i < length (shape t) then Inr (shape t ! i) else Inl IndexError)"

definition flatten :: "'a tensor \<Rightarrow> 'a tensor" where
  "flatten t = \<lparr>shape = [prod_list (shape t)], data = data t\<rparr>"

text \<open>
  \<open>reshape\<close> with at most one \<open>-1\<close> among the sizes: the missing size is inferred when
  the known sizes have a non-zero product that divides the number of elements.
\<close>

definition reshape :: "'a tensor \<Rightarrow> int list \<Rightarrow> error + 'a tensor" where
  "reshape t sizes =
     (let n = prod_list (shape t); known = filter (\<lambda>z. z \<noteq> - 1) sizes in
      if list_ex (\<lambda>z. z < - 1) sizes \<or> 1 < length (filter (\<lambda>z. z = - 1) sizes)
      then Inl RuntimeError
      else if length known = length sizes
      then (if prod_list (map nat sizes) = n then Inr \<lparr>shape = map nat sizes, data = data t\<rparr>
            else Inl RuntimeError)
      else let p = prod_list (map nat known) in
        if p = 0 \<or> n mod p \<noteq> 0 then Inl RuntimeError
        else Inr \<lparr>shape = map (\<lambda>z. if z = - 1 then n div p else nat z) sizes, data = data t\<rparr>)"

definition repeat :: "'a tensor \<Rightarrow> nat list \<Rightarrow> error + 'a tensor" where
  "repeat t reps =
     (if length reps < length (shape t) then Inl RuntimeError
      else let sh = replicate (length reps - length (shape t)) 1 @ shape t in
        Inr (tabulate (map2 (\<lambda>r d. r * d) reps sh)
               (\<lambda>idx. elem \<lparr>shape = sh, data = data t\<rparr> (map2 (\<lambda>i d. i mod d) idx sh))))"

text \<open>
  \<open>torch.cat\<close>: the tensors agree in rank and in every size but the one at \<open>axis\<close>; a
  one-dimensional empty tensor (shape \<open>[0]\<close>) is skipped, as torch still does.
\<close>

definition cat2 :: "'a tensor \<Rightarrow> 'a tensor \<Rightarrow> int \<Rightarrow> error + 'a tensor" where
  "cat2 a b axis =
     (if shape a = [] \<or> shape b = [] then Inl RuntimeError
      else if shape a = [0] then bindE (norm_index (length (shape b)) axis) (\<lambda>_. Inr b)
      else if shape b = [0] then bindE (norm_index (length (shape a)) axis) (\<lambda>_. Inr a)
      else bindE (norm_index (length (shape a)) axis) (\<lambda>d.
        if length (shape b) = length (shape a) \<and> remove_at d (shape b) = remove_at d (shape a)
        then Inr (tabulate ((shape a)[d := shape a ! d + shape b ! d])
                    (\<lambda>idx. if idx ! d < shape a ! d then elem a idx
                           else elem b (idx[d := idx ! d - shape a ! d])))
        else Inl RuntimeError))"

fun cat :: "'a tensor list \<Rightarrow> int \<Rightarrow> error + 'a tensor" where
  "cat [] axis = Inl RuntimeError"
| "cat [t] axis = (if shape t = [] then Inl RuntimeError
                  else bindE (norm_index (length (shape t)) axis) (\<lambda>_. Inr t))"
| "cat (t # u # ts) axis = (case cat2 t u axis of Inl e \<Rightarrow> Inl e | Inr tu \<Rightarrow> cat (tu # ts) axis)"

subsection \<open>Reductions and layers\<close>

definition sum_dim :: "real tensor \<Rightarrow> int \<Rightarrow> error + real tensor" where
  "sum_dim t axis = bindE (norm_index (length (shape t)) axis) (\<lambda>d.
     Inr (tabulate (remove_at d (shape t))
            (\<lambda>idx. sum_list (map (\<lambda>k. elem t (insert_at d k idx)) [0..<shape t ! d]))))"

text \<open>
  \<open>nn.Embedding\<close>: the weight is a table of rows; an index outside \<open>[0, rows)\<close> is an
  \<open>IndexError\<close> (negative indices do not wrap here).
\<close>

definition embedding :: "real tensor \<Rightarrow> int tensor \<Rightarrow> error + real tensor" where
  "embedding w idx =
     (if length (shape w) \<noteq> 2 then Inl RuntimeError
      else let v = shape w ! 0; dm = shape w ! 1 in
        if list_all (\<lambda>i. 0 \<le> i \<and> i < int v) (data idx)
        then Inr \<lparr>shape = shape idx @ [dm],
                  data = concat (map (\<lambda>i. take dm (drop (nat i * dm) (data w))) (data idx))\<rparr>
        else Inl IndexError)"

subsection \<open>Operations along the last dimension\<close>

text \<open>
  A tensor of rank 0 is read as one row of one element; no tensor of rank 0 reaches these
  operations in the modelled code (every logits tensor comes out of a linear layer or a
  matrix product).
\<close>

definition num_rows :: "'a tensor \<Rightarrow> nat" where
  "num_rows t = prod_list (butlast (shape t))"

definition map_rows :: "('a list \<Rightarrow> 'b list) \<Rightarrow> nat \<Rightarrow> 'a tensor \<Rightarrow> 'b tensor" where
  "map_rows f n t = \<lparr>shape = (if shape t = [] then [] else butlast (shape t) @ [n]),
                      data = concat (map (\<lambda>r. f (row t r)) [0..<num_rows t])\<rparr>"

definition topk :: "('a::linorder) tensor \<Rightarrow> int \<Rightarrow> error + 'a tensor" where
  "topk t k = (if k < 0 \<or> int (row_len t) < k then Inl RuntimeError
               else Inr (map_rows (\<lambda>r. take (nat k) (rev (sort r))) (nat k) t))"

fun argmax_list :: "real list \<Rightarrow> nat" where
  "argmax_list [] = 0"
| "argmax_list [x] = 0"
| "argmax_list (x # xs) = (let j = argmax_list xs in if x < xs ! j then Suc j else 0)"

definition argmax_last :: "real tensor \<Rightarrow> error + int tensor" where
  "argmax_last t = (if row_len t = 0 then Inl IndexError
                    else Inr (map_rows (\<lambda>r. [int (argmax_list r)]) 1 t))"

text \<open>\<open>nn.Linear\<close> without bias: the weight has shape \<open>[out, in]\<close>.\<close>

definition linear_layer :: "real tensor \<Rightarrow> real tensor \<Rightarrow> error + real tensor" where
  "linear_layer w x =
     (if length (shape w) \<noteq> 2 \<or> shape x = [] \<or> last (shape x) \<noteq> shape w ! 1
      then Inl RuntimeError
      else Inr (map_rows (\<lambda>r. map (\<lambda>out. sum_list (map2 (\<lambda>a c. a * c) r (row w out)))
                                   [0..<shape w ! 0])
                  (shape w ! 0) x))"

definition mm :: "real tensor \<Rightarrow> real tensor \<Rightarrow> error + real tensor" where
  "mm a b =
     (if length (shape a) \<noteq> 2 \<or> length (shape b) \<noteq> 2 \<or> shape a ! 1 \<noteq> shape b ! 0
      then Inl RuntimeError
      else Inr (tabulate [shape a ! 0, shape b ! 1]
                  (\<lambda>idx. sum_list (map (\<lambda>j. elem a [idx ! 0, j] * elem b [j, idx ! 1])
                                       [0..<shape a ! 1]))))"

section \<open>Sampling unit\<close>

text \<open>
  Floating-point numbers are idealised as reals: no rounding, no overflow. The one
  non-finite value the code writes itself, \<open>-float("Inf")\<close>, is \<open>NegInf\<close>;
  \<open>exp (-inf) = 0\<close>. A division by a zero temperature leaves the reals (the floats give
  infinities and NaN, no exception); HOL's \<open>x / 0 = 0\<close> stands there, so the model's
  values mean nothing for \<open>temperature = 0\<close>, while its control flow (no exception) is
  the code's.
\<close>

datatype xreal = NegInf | Fin real

fun ex :: "xreal \<Rightarrow> real" where
  "ex NegInf = 0"
| "ex (Fin x) = exp x"

definition log_softmax_row :: "xreal list \<Rightarrow> xreal list" where
  "log_softmax_row xs =
     (let z = sum_list (map ex xs)
      in map (\<lambda>x. case x of NegInf \<Rightarrow> NegInf | Fin v \<Rightarrow> Fin (v - ln z)) xs)"

definition softmax_row :: "xreal list \<Rightarrow> real list" where
  "softmax_row xs = (let z = sum_list (map ex xs) in map (\<lambda>x. ex x / z) xs)"

definition log_softmax :: "xreal tensor \<Rightarrow> xreal tensor" where
  "log_softmax t = map_rows log_softmax_row (row_len t) t"

definition softmax :: "xreal tensor \<Rightarrow> real tensor" where
  "softmax t = map_rows softmax_row (row_len t) t"

text \<open>
  \<open>torch.empty_like(probs).exponential_(1)\<close> draws one Exp(1) number for each element;
  the draws are an input of the model: \<open>noise k\<close> is the number drawn for the element
  at flat position \<open>k\<close>.
\<close>

definition multinomial_sample_one_no_sync :: "(nat \<Rightarrow> real) \<Rightarrow> real tensor \<Rightarrow> error + int tensor" where
  "multinomial_sample_one_no_sync noise probs =
     (let q = \<lparr>shape = shape probs, data = map noise [0..<length (data probs)]\<rparr>
      in bindE (binop (\<lambda>p x. p / x) probs q) argmax_last)"

definition sample_topk :: "(nat \<Rightarrow> real) \<Rightarrow> real tensor \<Rightarrow> int \<Rightarrow> real \<Rightarrow> error + int tensor" where
  "sample_topk noise logits k temperature =
     (let logits1 = map_tensor (\<lambda>x. x / temperature) logits in
      bindE (topk logits1 k) (\<lambda>tk.
      bindE (getitem tk [Ellipsis, Idx (- 1), NewAxis]) (\<lambda>kth.
      bindE (binop (\<lambda>x y. x < y) logits1 kth) (\<lambda>indices_to_remove.
      bindE (masked_fill (map_tensor Fin logits1) indices_to_remove NegInf) (\<lambda>scores_processed.
        multinomial_sample_one_no_sync noise (softmax (log_softmax scores_processed)))))))"


section \<open>Mask builder\<close>

definition ones :: "int list \<Rightarrow> error + bool tensor" where
  "ones sizes = (if list_ex (\<lambda>n. n < 0) sizes then Inl RuntimeError
                 else Inr (tabulate (map nat sizes) (\<lambda>_. True)))"

definition tril :: "bool tensor \<Rightarrow> error + bool tensor" where
  "tril t = (let r = length (shape t) in
     if r < 2 then Inl RuntimeError
     else Inr (tabulate (shape t) (\<lambda>idx. idx ! (r - 1) \<le> idx ! (r - 2) \<and> elem t idx)))"

definition create_causal_mask :: "int \<Rightarrow> error + bool tensor" where
  "create_causal_mask seq_len = bindE (ones [seq_len, seq_len]) tril"

definition index_causal_mask :: "'a tensor \<Rightarrow> int tensor \<Rightarrow> error + 'a tensor" where
  "index_causal_mask m input_pos =
     (if length (shape m) < 2 then Inl IndexError
      else let n = hd (shape m); rest = tl (shape m); w = prod_list rest in
        if list_all (\<lambda>p. - int n \<le> p \<and> p < int n) (data input_pos)
        then Inr \<lparr>shape = shape input_pos @ rest,
                  data = concat (map (\<lambda>p. take w (drop (nat (if p < 0 then p + int n else p) * w)
                                                     (data m)))
                                     (data input_pos))\<rparr>
        else Inl IndexError)"

section \<open>Floats of the batch driver\<close>

text \<open>
  The order of the floats with \<open>-inf\<close>, for \<open>torch.topk\<close> and \<open><\<close> on logits that
  already hold a masked entry.
\<close>

instantiation xreal :: linorder
begin

definition less_eq_xreal :: "xreal \<Rightarrow> xreal \<Rightarrow> bool" where
  "less_eq_xreal a b = (case a of NegInf \<Rightarrow> True
                         | Fin x \<Rightarrow> (case b of NegInf \<Rightarrow> False | Fin y \<Rightarrow> x \<le> y))"

definition less_xreal :: "xreal \<Rightarrow> xreal \<Rightarrow> bool" where
  "less_xreal a b = (case b of NegInf \<Rightarrow> False
                      | Fin y \<Rightarrow> (case a of NegInf \<Rightarrow> True | Fin x \<Rightarrow> x < y))"

instance
  by standard (auto simp: less_eq_xreal_def less_xreal_def split: xreal.splits)

end

definition xdiv :: "xreal \<Rightarrow> real \<Rightarrow> xreal" where
  "xdiv x t = (case x of NegInf \<Rightarrow> NegInf | Fin v \<Rightarrow> Fin (v / t))"

text \<open>
  \<open>torch.multinomial(probs, num_samples=1)\<close> draws one index for each row of a one- or
  two-dimensional \<open>probs\<close>. The draws are an input of the model: \<open>draw r\<close> is the index
  drawn for row \<open>r\<close>. The model does not restrict them to the indices of positive
  probability, so it has every run of the code, and more.
\<close>

definition multinomial :: "real tensor \<Rightarrow> (nat \<Rightarrow> int) \<Rightarrow> error + int tensor" where
  "multinomial probs draw =
     (if length (shape probs) = 2 \<and> shape probs ! 1 \<noteq> 0
      then Inr \<lparr>shape = [shape probs ! 0, 1], data = map draw [0..<shape probs ! 0]\<rparr>
      else if length (shape probs) = 1 \<and> shape probs ! 0 \<noteq> 0
      then Inr \<lparr>shape = [1], data = [draw 0]\<rparr>
      else Inl RuntimeError)"

section \<open>State and exceptions\<close>

text \<open>
  A method that mutates the model and may raise is a function from the state before to
  a result and the state after. The state after is returned with an exception too: what
  was mutated before the exception stays mutated, and a caller that catches it goes on
  from there.
\<close>

definition returnS :: "'a \<Rightarrow> 's \<Rightarrow> (error + 'a) \<times> 's" where
  "returnS x s = (Inr x, s)"

definition liftE :: "error + 'a \<Rightarrow> 's \<Rightarrow> (error + 'a) \<times> 's" where
  "liftE r s = (r, s)"

definition bindS ::
  "('s \<Rightarrow> (error + 'a) \<times> 's) \<Rightarrow> ('a \<Rightarrow> 's \<Rightarrow> (error + 'b) \<times> 's) \<Rightarrow> 's \<Rightarrow> (error + 'b) \<times> 's" where
  "bindS m f s = (case m s of (Inl e, s') \<Rightarrow> (Inl e, s') | (Inr x, s') \<Rightarrow> f x s')"

section \<open>The model\<close>

text \<open>
  The two transformer stacks are torchtune's \<open>TransformerDecoder\<close>, outside this
  repository: each is taken as a parameter, a record of its four methods over a state
  \<open>'c\<close> of its own (its key/value caches), with its \<open>max_seq_len\<close>.
\<close>

record 'c stack =
  stk_caches_are_enabled :: "'c \<Rightarrow> bool"
  stk_setup_caches :: "int \<Rightarrow> int option \<Rightarrow> 'c \<Rightarrow> (error + unit) \<times> 'c"
  stk_forward :: "real tensor \<Rightarrow> int tensor \<Rightarrow> bool tensor \<Rightarrow> 'c \<Rightarrow> (error + real tensor) \<times> 'c"
  stk_reset_caches :: "'c \<Rightarrow> (error + unit) \<times> 'c"
  stk_max_seq_len :: nat

record model_args =
  backbone_flavor :: string
  decoder_flavor :: string
  text_vocab_size :: nat
  audio_vocab_size :: nat
  audio_num_codebooks :: nat

text \<open>
  The parameters of \<open>Model\<close>: the weights of the two embedding tables, of the three
  linear maps (\<open>audio_head\<close> is the stacked tensor of shape
  \<open>[audio_num_codebooks - 1, decoder_dim, audio_vocab_size]\<close>) and the two stacks.
\<close>

record ('b, 'd) model =
  args :: model_args
  backbone :: "'b stack"
  decoder :: "'d stack"
  text_embeddings :: "real tensor"
  audio_embeddings :: "real tensor"
  projection :: "real tensor"
  codebook0_head :: "real tensor"
  audio_head :: "real tensor"

text \<open>
  What a call can mutate: the caches of the two stacks and the two mask buffers, which
  \<open>setup_caches\<close> registers (before it, the attributes do not exist).
\<close>

record ('b, 'd) session =
  backbone_state :: 'b
  decoder_state :: 'd
  backbone_causal_mask :: "bool tensor option"
  decoder_causal_mask :: "bool tensor option"

text \<open>
  The shapes \<open>Model.__init__\<close> gives the two embedding tables: both have the
  backbone's width \<open>width\<close>.
\<close>

definition tables_built :: "('b, 'd) model \<Rightarrow> nat \<Rightarrow> bool" where
  "tables_built M width =
     (shape (text_embeddings M) = [text_vocab_size (args M), width]
      \<and> shape (audio_embeddings M)
          = [audio_vocab_size (args M) * audio_num_codebooks (args M), width])"

definition call_backbone ::
  "('b, 'd) model \<Rightarrow> real tensor \<Rightarrow> int tensor \<Rightarrow> bool tensor
     \<Rightarrow> ('b, 'd) session \<Rightarrow> (error + real tensor) \<times> ('b, 'd) session" where
  "call_backbone M h input_pos msk s =
     (case stk_forward (backbone M) h input_pos msk (backbone_state s) of
        (r, c) \<Rightarrow> (r, s\<lparr>backbone_state := c\<rparr>))"

definition call_decoder ::
  "('b, 'd) model \<Rightarrow> real tensor \<Rightarrow> int tensor \<Rightarrow> bool tensor
     \<Rightarrow> ('b, 'd) session \<Rightarrow> (error + real tensor) \<times> ('b, 'd) session" where
  "call_decoder M h input_pos msk s =
     (case stk_forward (decoder M) h input_pos msk (decoder_state s) of
        (r, c) \<Rightarrow> (r, s\<lparr>decoder_state := c\<rparr>))"

definition reset_backbone :: "('b, 'd) model \<Rightarrow> ('b, 'd) session \<Rightarrow> (error + unit) \<times> ('b, 'd) session" where
  "reset_backbone M s =
     (case stk_reset_caches (backbone M) (backbone_state s) of
        (r, c) \<Rightarrow> (r, s\<lparr>backbone_state := c\<rparr>))"

definition reset_decoder :: "('b, 'd) model \<Rightarrow> ('b, 'd) session \<Rightarrow> (error + unit) \<times> ('b, 'd) session" where
  "reset_decoder M s =
     (case stk_reset_caches (decoder M) (decoder_state s) of
        (r, c) \<Rightarrow> (r, s\<lparr>decoder_state := c\<rparr>))"

definition reset_caches :: "('b, 'd) model \<Rightarrow> ('b, 'd) session \<Rightarrow> (error + unit) \<times> ('b, 'd) session" where
  "reset_caches M = bindS (reset_backbone M) (\<lambda>_. reset_decoder M)"

definition setup_caches ::
  "('b, 'd) model \<Rightarrow> int \<Rightarrow> ('b, 'd) session \<Rightarrow> (error + unit) \<times> ('b, 'd) session" where
  "setup_caches M max_batch_size =
     bindS (\<lambda>s. case stk_setup_caches (backbone M) max_batch_size None (backbone_state s) of
                   (r, c) \<Rightarrow> (r, s\<lparr>backbone_state := c\<rparr>)) (\<lambda>_.
     bindS (\<lambda>s. case stk_setup_caches (decoder M) max_batch_size
                        (Some (int (audio_num_codebooks (args M)))) (decoder_state s) of
                   (r, c) \<Rightarrow> (r, s\<lparr>decoder_state := c\<rparr>)) (\<lambda>_.
     bindS (liftE (create_causal_mask (int (stk_max_seq_len (backbone M))))) (\<lambda>bm.
     bindS (\<lambda>s. (Inr (), s\<lparr>backbone_causal_mask := Some bm\<rparr>)) (\<lambda>_.
     bindS (liftE (create_causal_mask (int (audio_num_codebooks (args M))))) (\<lambda>dm.
       (\<lambda>s. (Inr (), s\<lparr>decoder_causal_mask := Some dm\<rparr>)))))))"

text \<open>The line \<open>assert self.backbone.caches_are_enabled(), "backbone caches are not enabled"\<close>.\<close>

definition assert_caches_enabled ::
  "('b, 'd) model \<Rightarrow> ('b, 'd) session \<Rightarrow> (error + unit) \<times> ('b, 'd) session" where
  "assert_caches_enabled M s =
     (if stk_caches_are_enabled (backbone M) (backbone_state s) then (Inr (), s)
      else (Inl (AssertionError ''backbone caches are not enabled''), s))"

definition get_backbone_causal_mask :: "('b, 'd) session \<Rightarrow> (error + bool tensor) \<times> ('b, 'd) session" where
  "get_backbone_causal_mask s =
     (case backbone_causal_mask s of None \<Rightarrow> (Inl AttributeError, s) | Some m \<Rightarrow> (Inr m, s))"

definition get_decoder_causal_mask :: "('b, 'd) session \<Rightarrow> (error + bool tensor) \<times> ('b, 'd) session" where
  "get_decoder_causal_mask s =
     (case decoder_causal_mask s of None \<Rightarrow> (Inl AttributeError, s) | Some m \<Rightarrow> (Inr m, s))"

subsection \<open>Embedding fuser\<close>

definition embed_audio :: "('b, 'd) model \<Rightarrow> nat \<Rightarrow> int tensor \<Rightarrow> error + real tensor" where
  "embed_audio M codebook tokens =
     embedding (audio_embeddings M)
       (map_tensor (\<lambda>t. t + int codebook * int (audio_vocab_size (args M))) tokens)"

definition embed_tokens :: "('b, 'd) model \<Rightarrow> int tensor \<Rightarrow> error + real tensor" where
  "embed_tokens M tokens =
     bindE (getitem tokens [Colon, Colon, Idx (- 1)]) (\<lambda>text_tokens.
     bindE (embedding (text_embeddings M) text_tokens) (\<lambda>te.
     bindE (unsqueeze te (- 2)) (\<lambda>text_embeds.
     bindE (getitem tokens [Colon, Colon, Slice None (Some (- 1))]) (\<lambda>audio_slots.
     bindE (arange (int (audio_num_codebooks (args M)))) (\<lambda>codebooks.
     bindE (binop (\<lambda>t c. t + c) audio_slots
              (map_tensor (\<lambda>c. int (audio_vocab_size (args M)) * c) codebooks)) (\<lambda>audio_tokens.
     bindE (embedding (audio_embeddings M) (flatten audio_tokens)) (\<lambda>ae.
     bindE (size_at tokens 0) (\<lambda>b.
     bindE (size_at tokens 1) (\<lambda>sq.
     bindE (reshape ae [int b, int sq, int (audio_num_codebooks (args M)), - 1]) (\<lambda>audio_embeds.
       cat [audio_embeds, text_embeds] (- 2)))))))))))"

subsection \<open>Backbone driver: the single-step forward path\<close>

definition forward ::
  "('b, 'd) model \<Rightarrow> int tensor \<Rightarrow> bool tensor \<Rightarrow> int tensor
     \<Rightarrow> ('b, 'd) session \<Rightarrow> (error + real tensor) \<times> ('b, 'd) session" where
  "forward M tokens tokens_mask input_pos =
     bindS (assert_caches_enabled M) (\<lambda>_.
     bindS get_backbone_causal_mask (\<lambda>causal.
     bindS (liftE (index_causal_mask causal input_pos)) (\<lambda>curr_backbone_mask.
     bindS (liftE (embed_tokens M tokens)) (\<lambda>embeds.
     bindS (liftE (bindE (unsqueeze tokens_mask (- 1))
                     (binop (\<lambda>x keep. if keep then x else 0) embeds))) (\<lambda>masked_embeds.
     bindS (liftE (sum_dim masked_embeds 2)) (\<lambda>h0.
     bindS (call_backbone M h0 input_pos curr_backbone_mask) (\<lambda>h.
     bindS (liftE (getitem h [Colon, Idx (- 1), Colon])) (\<lambda>last_h.
       liftE (linear_layer (codebook0_head M) last_h)))))))))"

subsection \<open>Decoder loop and frame generator\<close>

text \<open>
  The body of \<open>for i in range(1, audio_num_codebooks)\<close>, once for each \<open>i\<close> of the
  list. \<open>noise i\<close> is the Exp(1) noise of the \<open>i\<close>-th call of \<open>sample_topk\<close>.
\<close>

fun decoder_loop ::
  "('b, 'd) model \<Rightarrow> real \<Rightarrow> int \<Rightarrow> (nat \<Rightarrow> nat \<Rightarrow> real) \<Rightarrow> nat list
     \<Rightarrow> real tensor \<times> int tensor \<times> int tensor
     \<Rightarrow> ('b, 'd) session \<Rightarrow> (error + int tensor) \<times> ('b, 'd) session" where
  "decoder_loop M temperature k noise [] (curr_h, curr_sample, curr_pos) = returnS curr_sample"
| "decoder_loop M temperature k noise (i # rest) (curr_h, curr_sample, curr_pos) =
     bindS get_decoder_causal_mask (\<lambda>causal.
     bindS (liftE (index_causal_mask causal curr_pos)) (\<lambda>curr_decoder_mask.
     bindS (liftE (linear_layer (projection M) curr_h)) (\<lambda>projected.
     bindS (call_decoder M projected curr_pos curr_decoder_mask) (\<lambda>decoder_h.
     bindS (liftE (bindE (getitem decoder_h [Colon, Idx (- 1), Colon]) (\<lambda>last_dh.
                   bindE (getitem (audio_head M) [Idx (int i - 1)]) (\<lambda>w.
                     mm last_dh w)))) (\<lambda>ci_logits.
     bindS (liftE (sample_topk (noise i) ci_logits k temperature)) (\<lambda>ci_sample.
     bindS (liftE (embed_audio M i ci_sample)) (\<lambda>ci_embed.
     bindS (liftE (cat [curr_sample, ci_sample] 1)) (\<lambda>next_sample.
     bindS (liftE (bindE (getitem curr_pos [Colon, Slice (Some (- 1)) None]) (\<lambda>p.
                     Inr (map_tensor (\<lambda>x. x + 1) p)))) (\<lambda>next_pos.
       decoder_loop M temperature k noise rest (ci_embed, next_sample, next_pos))))))))))"

definition generate_frame ::
  "('b, 'd) model \<Rightarrow> int tensor \<Rightarrow> bool tensor \<Rightarrow> int tensor \<Rightarrow> real \<Rightarrow> int
     \<Rightarrow> (nat \<Rightarrow> nat \<Rightarrow> real)
     \<Rightarrow> ('b, 'd) session \<Rightarrow> (error + int tensor) \<times> ('b, 'd) session" where
  "generate_frame M tokens tokens_mask input_pos temperature k noise =
     bindS (liftE (if length (shape tokens) = 3 then Inr () else Inl ValueError)) (\<lambda>_.
     bindS (assert_caches_enabled M) (\<lambda>_.
     bindS get_backbone_causal_mask (\<lambda>causal.
     bindS (liftE (index_causal_mask causal input_pos)) (\<lambda>curr_backbone_mask.
     bindS (liftE (embed_tokens M tokens)) (\<lambda>embeds.
     bindS (liftE (bindE (unsqueeze tokens_mask (- 1))
                     (binop (\<lambda>x keep. if keep then x else 0) embeds))) (\<lambda>masked_embeds.
     bindS (liftE (sum_dim masked_embeds 2)) (\<lambda>h0.
     bindS (call_backbone M h0 input_pos curr_backbone_mask) (\<lambda>h.
     bindS (liftE (getitem h [Colon, Idx (- 1), Colon])) (\<lambda>last_h.
     bindS (liftE (linear_layer (codebook0_head M) last_h)) (\<lambda>c0_logits.
     bindS (liftE (sample_topk (noise 0) c0_logits k temperature)) (\<lambda>c0_sample.
     bindS (liftE (embed_audio M 0 c0_sample)) (\<lambda>c0_embed.
     bindS (liftE (bindE (unsqueeze last_h 1) (\<lambda>lh. cat [lh, c0_embed] 1))) (\<lambda>curr_h.
     bindS (liftE (bindE (size_at curr_h 1) (\<lambda>len.
                   bindE (arange (int len)) (\<lambda>positions.
                   bindE (unsqueeze positions 0) (\<lambda>positions1.
                   bindE (size_at curr_h 0) (\<lambda>b.
                     repeat positions1 [b, 1])))))) (\<lambda>curr_pos.
     bindS (reset_decoder M) (\<lambda>_.
       decoder_loop M temperature k noise [1..<audio_num_codebooks (args M)]
         (curr_h, c0_sample, curr_pos))))))))))))))))"

subsection \<open>Batch driver\<close>

text \<open>
  \<open>generate_frames_batch\<close> clones its arguments, rebinds local names and writes into
  one tensor in place (\<open>logits[...] = -inf\<close>). Which tensors it can change depends on
  which names share a tensor, so here the tensors the method names live in a store, its
  arguments and locals are addresses into it, \<open>clone\<close> and every operation that builds
  a tensor allocate a fresh cell, and the in-place write updates the cell of \<open>logits\<close>.
\<close>

record store =
  int_cells :: "int tensor list"
  bool_cells :: "bool tensor list"
  float_cells :: "xreal tensor list"

definition in_session ::
  "('s \<Rightarrow> (error + 'a) \<times> 's) \<Rightarrow> 's \<times> store \<Rightarrow> (error + 'a) \<times> ('s \<times> store)" where
  "in_session m w = (case m (fst w) of (r, s') \<Rightarrow> (r, (s', snd w)))"

definition new_int :: "int tensor \<Rightarrow> 's \<times> store \<Rightarrow> (error + nat) \<times> ('s \<times> store)" where
  "new_int v w = (Inr (length (int_cells (snd w))),
                  (fst w, (snd w)\<lparr>int_cells := int_cells (snd w) @ [v]\<rparr>))"

definition new_bool :: "bool tensor \<Rightarrow> 's \<times> store \<Rightarrow> (error + nat) \<times> ('s \<times> store)" where
  "new_bool v w = (Inr (length (bool_cells (snd w))),
                   (fst w, (snd w)\<lparr>bool_cells := bool_cells (snd w) @ [v]\<rparr>))"

definition new_float :: "xreal tensor \<Rightarrow> 's \<times> store \<Rightarrow> (error + nat) \<times> ('s \<times> store)" where
  "new_float v w = (Inr (length (float_cells (snd w))),
                    (fst w, (snd w)\<lparr>float_cells := float_cells (snd w) @ [v]\<rparr>))"

definition get_int :: "nat \<Rightarrow> 's \<times> store \<Rightarrow> (error + int tensor) \<times> ('s \<times> store)" where
  "get_int a w = (Inr (int_cells (snd w) ! a), w)"

definition get_bool :: "nat \<Rightarrow> 's \<times> store \<Rightarrow> (error + bool tensor) \<times> ('s \<times> store)" where
  "get_bool a w = (Inr (bool_cells (snd w) ! a), w)"

definition get_float :: "nat \<Rightarrow> 's \<times> store \<Rightarrow> (error + xreal tensor) \<times> ('s \<times> store)" where
  "get_float a w = (Inr (float_cells (snd w) ! a), w)"

definition set_float :: "nat \<Rightarrow> xreal tensor \<Rightarrow> 's \<times> store \<Rightarrow> (error + unit) \<times> ('s \<times> store)" where
  "set_float a v w = (Inr (), (fst w, (snd w)\<lparr>float_cells := (float_cells (snd w))[a := v]\<rparr>))"

text \<open>
  The body of \<open>for i in range(num_frames)\<close>, once for each \<open>i\<close> of the list; \<open>break\<close>
  returns the samples gathered so far. \<open>draw i\<close> are the draws of iteration \<open>i\<close>.
\<close>

fun frames_loop ::
  "('b, 'd) model \<Rightarrow> real \<Rightarrow> int \<Rightarrow> (nat \<Rightarrow> nat \<Rightarrow> int) \<Rightarrow> nat list
     \<Rightarrow> nat \<times> nat \<times> nat \<times> nat list
     \<Rightarrow> ('b, 'd) session \<times> store \<Rightarrow> (error + nat list) \<times> (('b, 'd) session \<times> store)" where
  "frames_loop M temperature k draw [] (curr_tokens, curr_tokens_mask, curr_pos, batch_samples) =
     returnS batch_samples"
| "frames_loop M temperature k draw (i # rest) (curr_tokens, curr_tokens_mask, curr_pos, batch_samples) =
     bindS (get_int curr_tokens) (\<lambda>tokens_v.
     bindS (get_bool curr_tokens_mask) (\<lambda>mask_v.
     bindS (get_int curr_pos) (\<lambda>pos_v.
     bindS (in_session (forward M tokens_v mask_v pos_v)) (\<lambda>logits_v.
     bindS (new_float (map_tensor Fin logits_v)) (\<lambda>logits0.
     bindS (if 0 < temperature
            then bindS (get_float logits0) (\<lambda>l.
                   new_float (map_tensor (\<lambda>x. xdiv x temperature) l))
            else returnS logits0) (\<lambda>logits.
     bindS (if 0 < k
            then bindS (get_float logits) (\<lambda>l.
                 bindS (liftE (topk l k)) (\<lambda>v.
                 bindS (liftE (getitem v [Colon, ListIdx [- 1]])) (\<lambda>kth.
                 bindS (liftE (binop (\<lambda>x y. x < y) l kth)) (\<lambda>below.
                 bindS (liftE (masked_assign l below NegInf)) (set_float logits)))))
            else returnS ()) (\<lambda>_.
     bindS (get_float logits) (\<lambda>l.
     bindS (liftE (multinomial (softmax l) (draw i))) (\<lambda>drawn.
     bindS (new_int drawn) (\<lambda>sample.
     bindS (get_int sample) (\<lambda>sample_v.
       if list_all (\<lambda>x. x = 0) (data sample_v) then returnS batch_samples
       else
         bindS (liftE (cat [sample_v, \<lparr>shape = [1, 1], data = [0]\<rparr>] 1)) (\<lambda>next_tokens.
         bindS (new_int next_tokens) (\<lambda>curr_tokens'.
         bindS (liftE (cat [map_tensor (\<lambda>_. True) sample_v,
                            \<lparr>shape = [1, 1], data = [False]\<rparr>] 1)) (\<lambda>next_mask.
         bindS (new_bool next_mask) (\<lambda>curr_tokens_mask'.
         bindS (get_int curr_pos) (\<lambda>pos_now.
         bindS (liftE (bindE (getitem pos_now [Colon, Slice (Some (- 1)) None]) (\<lambda>p.
                         Inr (map_tensor (\<lambda>x. x + 1) p)))) (\<lambda>next_pos.
         bindS (new_int next_pos) (\<lambda>curr_pos'.
           frames_loop M temperature k draw rest
             (curr_tokens', curr_tokens_mask', curr_pos', batch_samples @ [sample])))))))))))))))))))"

text \<open>The \<open>try\<close> block of \<open>generate_frames_batch\<close>.\<close>

definition frames_try ::
  "('b, 'd) model \<Rightarrow> nat \<Rightarrow> nat \<Rightarrow> nat \<Rightarrow> real \<Rightarrow> int \<Rightarrow> int \<Rightarrow> (nat \<Rightarrow> nat \<Rightarrow> int)
     \<Rightarrow> ('b, 'd) session \<times> store \<Rightarrow> (error + int tensor option) \<times> (('b, 'd) session \<times> store)" where
  "frames_try M tokens tokens_mask pos temperature k num_frames draw =
     bindS (get_int tokens) (\<lambda>tokens_v.
     bindS (new_int tokens_v) (\<lambda>curr_tokens.
     bindS (get_bool tokens_mask) (\<lambda>mask_v.
     bindS (new_bool mask_v) (\<lambda>curr_tokens_mask.
     bindS (get_int pos) (\<lambda>pos_v.
     bindS (new_int pos_v) (\<lambda>curr_pos.
     bindS (frames_loop M temperature k draw [0..<nat num_frames]
              (curr_tokens, curr_tokens_mask, curr_pos, [])) (\<lambda>batch_samples.
       if batch_samples = [] then returnS None
       else bindS (\<lambda>w. (Inr (map (\<lambda>a. int_cells (snd w) ! a) batch_samples), w)) (\<lambda>samples.
            bindS (liftE (cat samples 0)) (\<lambda>frames. returnS (Some frames))))))))))"

text \<open>\<open>except Exception\<close>: every exception of the block becomes the result \<open>None\<close>.\<close>

definition generate_frames_batch ::
  "('b, 'd) model \<Rightarrow> nat \<Rightarrow> nat \<Rightarrow> nat \<Rightarrow> real \<Rightarrow> int \<Rightarrow> int \<Rightarrow> (nat \<Rightarrow> nat \<Rightarrow> int)
     \<Rightarrow> ('b, 'd) session \<times> store \<Rightarrow> int tensor option \<times> (('b, 'd) session \<times> store)" where
  "generate_frames_batch M tokens tokens_mask pos temperature k num_frames draw w =
     (case frames_try M tokens tokens_mask pos temperature k num_frames draw w of
        (Inl e, w') \<Rightarrow> (None, w')
      | (Inr frames, w') \<Rightarrow> (frames, w'))"

section \<open>A small concrete model\<close>

text \<open>
  A stack whose cache is the list of the numbers it has been fed (\<open>None\<close> before
  \<open>setup_caches\<close>); its output adds the sum of the cache to its input, so that it depends
  on what the cache holds. With it, a model of two codebooks, two audio tokens, one text
  token and width one, and a session before and after \<open>setup_caches\<close>.
\<close>

definition toy_stack :: "real list option stack" where
  "toy_stack = \<lparr>
     stk_caches_are_enabled = (\<lambda>c. c \<noteq> None),
     stk_setup_caches = (\<lambda>n len c. (Inr (), Some [])),
     stk_forward = (\<lambda>h input_pos msk c. case c of
         None \<Rightarrow> (Inr h, None)
       | Some es \<Rightarrow> (Inr (map_tensor (\<lambda>x. x + sum_list es) h), Some (es @ data h))),
     stk_reset_caches = (\<lambda>c. case c of
         None \<Rightarrow> (Inl RuntimeError, None)
       | Some es \<Rightarrow> (Inr (), Some [])),
     stk_max_seq_len = 2\<rparr>"

definition toy_model :: "(real list option, real list option) model" where
  "toy_model = \<lparr>
     args = \<lparr>backbone_flavor = ''toy'', decoder_flavor = ''toy'', text_vocab_size = 1,
             audio_vocab_size = 2, audio_num_codebooks = 2\<rparr>,
     backbone = toy_stack, decoder = toy_stack,
     text_embeddings = \<lparr>shape = [1, 1], data = [1]\<rparr>,
     audio_embeddings = \<lparr>shape = [4, 1], data = [1, 2, 3, 4]\<rparr>,
     projection = \<lparr>shape = [1, 1], data = [1]\<rparr>,
     codebook0_head = \<lparr>shape = [2, 1], data = [0, 1]\<rparr>,
     audio_head = \<lparr>shape = [1, 1, 2], data = [1, 0]\<rparr>\<rparr>"

definition toy_session :: "(real list option, real list option) session" where
  "toy_session = \<lparr>backbone_state = None, decoder_state = None,
      backbone_causal_mask = None, decoder_causal_mask = None\<rparr>"

definition toy_ready :: "(real list option, real list option) session" where
  "toy_ready = snd (setup_caches toy_model 1 toy_session)"

text \<open>The same with a single codebook: the decoder loop has nothing to do.\<close>

definition toy_model1 :: "(real list option, real list option) model" where
  "toy_model1 = toy_model\<lparr>
     args := (args toy_model)\<lparr>audio_num_codebooks := 1\<rparr>,
     audio_embeddings := \<lparr>shape = [2, 1], data = [1, 2]\<rparr>,
     audio_head := \<lparr>shape = [0, 1, 2], data = []\<rparr>\<rparr>"

definition toy_ready1 :: "(real list option, real list option) session" where
  "toy_ready1 = snd (setup_caches toy_model1 1 toy_session)"

text \<open>
  The caller's tensors for the batch driver: \<open>tokens\<close> at address 0 and \<open>pos\<close> at
  address 1 of the integer cells, \<open>tokens_mask\<close> at address 0 of the boolean cells.
\<close>

definition toy_store :: store where
  "toy_store = \<lparr>int_cells = [\<lparr>shape = [1, 1, 3], data = [0, 1, 0]\<rparr>, \<lparr>shape = [1, 1], data = [0]\<rparr>],
                 bool_cells = [\<lparr>shape = [1, 1, 3], data = [True, True, True]\<rparr>],
                 float_cells = []\<rparr>"

section \<open>Predicates of the proofs\<close>

text \<open>
  A step is blind to the decoder when it neither reads nor writes the decoder's state:
  run from a session with another decoder state, it gives the same result and the same
  session but for that state.
\<close>

definition decoder_blind :: "(('b, 'd) session \<Rightarrow> (error + 'a) \<times> ('b, 'd) session) \<Rightarrow> bool" where
  "decoder_blind m =
     (\<forall>s c. m (s\<lparr>decoder_state := c\<rparr>) = (case m s of (r, s') \<Rightarrow> (r, s'\<lparr>decoder_state := c\<rparr>)))"

text \<open>
  Two outcomes agree when they are the same, or are the same exception raised in two
  sessions that differ in the decoder states \<open>c1\<close> and \<open>c2\<close> only.
\<close>

definition outcomes_agree ::
  "'d \<Rightarrow> 'd \<Rightarrow> (error + 'a) \<times> ('b, 'd) session \<Rightarrow> (error + 'a) \<times> ('b, 'd) session \<Rightarrow> bool" where
  "outcomes_agree c1 c2 o1 o2 =
     (o1 = o2 \<or> (\<exists>e t. o1 = (Inl e, t\<lparr>decoder_state := c1\<rparr>)
                        \<and> o2 = (Inl e, t\<lparr>decoder_state := c2\<rparr>)))"

text \<open>
  \<open>wp m w Q E\<close>: run from \<open>w\<close>, the step \<open>m\<close> either returns a value and a state that
  satisfy \<open>Q\<close> or raises an exception in a state that satisfy \<open>E\<close>.
\<close>

definition wp ::
  "('s \<Rightarrow> (error + 'a) \<times> 's) \<Rightarrow> 's \<Rightarrow> ('a \<Rightarrow> 's \<Rightarrow> bool) \<Rightarrow> (error \<Rightarrow> 's \<Rightarrow> bool) \<Rightarrow> bool" where
  "wp m w Q E = (case m w of (Inl e, w') \<Rightarrow> E e w' | (Inr x, w') \<Rightarrow> Q x w')"

text \<open>
  The store \<open>st'\<close> extends \<open>st\<close>: every cell of \<open>st\<close> is a cell of \<open>st'\<close>, at the same
  address and with the same content.
\<close>

definition extends :: "'a list \<Rightarrow> 'a list \<Rightarrow> bool" where
  "extends xs ys = (length xs \<le> length ys \<and> take (length xs) ys = xs)"

definition store_extends :: "store \<Rightarrow> store \<Rightarrow> bool" where
  "store_extends st st' =
     (extends (int_cells st) (int_cells st')
      \<and> extends (bool_cells st) (bool_cells st')
      \<and> extends (float_cells st) (float_cells st'))"

declare frames_loop.simps [simp del]

section \<open>Properties of the tensor core\<close>

lemma ravel_less: "valid_index sh idx \<Longrightarrow> ravel sh idx < prod_list sh"
proof (induction sh idx rule: ravel.induct)
  case (1 d ds i js)
  then have i: "i < d" and r: "ravel ds js < prod_list ds"
    by (auto simp: valid_index_def)
  have "i * prod_list ds + ravel ds js < Suc i * prod_list ds"
    using r by simp
  also have "\<dots> \<le> d * prod_list ds"
    using i by (intro mult_le_mono1) simp
  finally show ?case by simp
qed (auto simp: valid_index_def)

lemma unravel_ravel: "valid_index sh idx \<Longrightarrow> unravel sh (ravel sh idx) = idx"
proof (induction sh idx rule: ravel.induct)
  case (1 d ds i js)
  then have v: "valid_index ds js"
    by (auto simp: valid_index_def)
  have r: "ravel ds js < prod_list ds"
    by (rule ravel_less [OF v])
  show ?case using 1 v r by simp
qed (auto simp: valid_index_def)

lemma at_tabulate: "valid_index sh idx \<Longrightarrow> elem (tabulate sh f) idx = f idx"
  using ravel_less [of sh idx] unravel_ravel [of sh idx]
  by (simp add: elem_def tabulate_def)

lemma shape_tabulate: "shape (tabulate sh f) = sh"
  by (simp add: tabulate_def)

lemma wf_tabulate: "wf_tensor (tabulate sh f)"
  by (simp add: tabulate_def wf_tensor_def)

lemma concat_rows:
  "length d = n * c \<Longrightarrow> concat (map (\<lambda>k. take c (drop (k * c) d)) [0..<n]) = d"
proof (induction n arbitrary: d)
  case 0
  then show ?case by simp
next
  case (Suc n)
  have len: "length (take (n * c) d) = n * c"
    using Suc.prems by simp
  have eq: "\<And>k. k < n \<Longrightarrow> take c (drop (k * c) (take (n * c) d)) = take c (drop (k * c) d)"
  proof -
    fix k assume "k < n"
    then have "Suc k \<le> n" by simp
    then have "Suc k * c \<le> n * c" by (rule mult_le_mono1)
    then have "c \<le> n * c - k * c" by simp
    then show "take c (drop (k * c) (take (n * c) d)) = take c (drop (k * c) d)"
      by (simp add: drop_take min_def)
  qed
  have "concat (map (\<lambda>k. take c (drop (k * c) d)) [0..<n])
        = concat (map (\<lambda>k. take c (drop (k * c) (take (n * c) d))) [0..<n])"
    using eq by (intro arg_cong [where f = concat] map_cong) auto
  also have "\<dots> = take (n * c) d"
    by (rule Suc.IH [OF len])
  finally have "concat (map (\<lambda>k. take c (drop (k * c) d)) [0..<Suc n])
        = take (n * c) d @ take c (drop (n * c) d)"
    by simp
  also have "take c (drop (n * c) d) = drop (n * c) d"
    using Suc.prems by simp
  finally show ?case by simp
qed


lemma row_2d:
  assumes "shape t = [b, n]" "wf_tensor t" "r < b"
  shows "row t r = map (\<lambda>j. elem t [r, j]) [0..<n]"
proof (rule nth_equalityI)
  have "Suc r * n \<le> b * n"
    using assms(3) by (intro mult_le_mono1) simp
  then have "n \<le> b * n - r * n" by simp
  then show len: "length (row t r) = length (map (\<lambda>j. elem t [r, j]) [0..<n])"
    using assms(1,2) by (simp add: row_def row_len_def wf_tensor_def)
  fix j assume "j < length (row t r)"
  then have j: "j < n" using len by simp
  then show "row t r ! j = map (\<lambda>j. elem t [r, j]) [0..<n] ! j"
    using assms(1) \<open>j < length (row t r)\<close>
    by (simp add: row_def row_len_def elem_def add.commute)
qed

lemma filter_le_upt: "i < n \<Longrightarrow> filter (\<lambda>j. j \<le> i) [0..<n] = [0..<Suc i]"
proof -
  assume "i < n"
  then have "[0..<n] = [0..<Suc i] @ [Suc i..<n]"
    using upt_add_eq_append [of 0 "Suc i" "n - Suc i"] by simp
  then have "filter (\<lambda>j. j \<le> i) [0..<n]
      = filter (\<lambda>j. j \<le> i) [0..<Suc i] @ filter (\<lambda>j. j \<le> i) [Suc i..<n]"
    by simp
  also have "filter (\<lambda>j. j \<le> i) [0..<Suc i] = [0..<Suc i]"
    by (rule filter_True) auto
  also have "filter (\<lambda>j. j \<le> i) [Suc i..<n] = []"
    by (rule filter_False) auto
  finally show ?thesis by simp
qed

lemma create_causal_mask_eq:
  "0 \<le> seq_len \<Longrightarrow> create_causal_mask seq_len =
     Inr (tabulate [nat seq_len, nat seq_len]
            (\<lambda>idx. idx ! 1 \<le> idx ! 0 \<and> elem (tabulate [nat seq_len, nat seq_len] (\<lambda>_. True)) idx))"
  by (simp add: create_causal_mask_def ones_def tril_def bindE_def shape_tabulate Let_def)

lemma causal_mask_entry:
  assumes "i < n" "j < n"
  shows "elem (tabulate [n, n] (\<lambda>idx. idx ! 1 \<le> idx ! 0 \<and> elem (tabulate [n, n] (\<lambda>_. True)) idx)) [i, j]
         = (j \<le> i)"
proof -
  have v: "valid_index [n, n] [i, j]"
    using assms by (simp add: valid_index_def)
  show ?thesis
    by (simp add: at_tabulate [OF v])
qed

section \<open>The mask builder: claims C7 and C8\<close>

text \<open>
  C7. For every \<open>seq_len \<ge> 1\<close>, \<open>_create_causal_mask\<close> returns a
  \<open>seq_len \<times> seq_len\<close> boolean matrix whose entry \<open>(i, j)\<close> is true if and only if
  \<open>j \<le> i\<close>, so that row \<open>i\<close> holds exactly \<open>i + 1\<close> true entries.
\<close>

theorem create_causal_mask_lower_triangular:
  assumes "1 \<le> seq_len"
  shows "\<exists>m. create_causal_mask seq_len = Inr m
           \<and> shape m = [nat seq_len, nat seq_len] \<and> wf_tensor m
           \<and> (\<forall>i < nat seq_len. \<forall>j < nat seq_len. elem m [i, j] = (j \<le> i))
           \<and> (\<forall>i < nat seq_len. length (filter (\<lambda>b. b) (row m i)) = i + 1)"
proof -
  define n where "n = nat seq_len"
  define m where "m = tabulate [n, n]
      (\<lambda>idx. idx ! 1 \<le> idx ! 0 \<and> elem (tabulate [n, n] (\<lambda>_. True)) idx)"
  have built: "create_causal_mask seq_len = Inr m"
    using assms by (simp add: create_causal_mask_eq m_def n_def)
  have sh: "shape m = [n, n]" and wf: "wf_tensor m"
    by (simp_all add: m_def shape_tabulate wf_tabulate)
  have entry: "elem m [i, j] = (j \<le> i)" if "i < n" "j < n" for i j
    unfolding m_def by (rule causal_mask_entry [OF that])
  have count: "length (filter (\<lambda>b. b) (row m i)) = i + 1" if "i < n" for i
  proof -
    have "row m i = map (\<lambda>j. elem m [i, j]) [0..<n]"
      by (rule row_2d [OF sh wf that])
    also have "\<dots> = map (\<lambda>j. j \<le> i) [0..<n]"
      using that by (intro map_cong) (auto simp: entry)
    finally have "filter (\<lambda>b. b) (row m i) = map (\<lambda>j. j \<le> i) (filter (\<lambda>j. j \<le> i) [0..<n])"
      by (simp add: filter_map comp_def)
    then show ?thesis
      using that by (simp add: filter_le_upt)
  qed
  show ?thesis
    using built sh wf entry count unfolding n_def by blast
qed

theorem create_causal_mask_lower_triangular_witness:
  "\<exists>m. create_causal_mask 3 = Inr m \<and> shape m = [3, 3]
       \<and> elem m [2, 1] \<and> \<not> elem m [1, 2] \<and> elem m [1, 1]
       \<and> length (filter (\<lambda>b. b) (row m 2)) = 3"
proof -
  have h: "(1::int) \<le> 3" by simp
  from create_causal_mask_lower_triangular [OF h]
  obtain m where m: "create_causal_mask 3 = Inr m" "shape m = [nat 3, nat 3]"
      "\<forall>i < nat 3. \<forall>j < nat 3. elem m [i, j] = (j \<le> i)"
      "\<forall>i < nat 3. length (filter (\<lambda>b. b) (row m i)) = i + 1"
    by blast
  have "elem m [2, 1]" "\<not> elem m [1, 2]" "elem m [1, 1]"
    using m(3) by simp_all
  moreover have "length (filter (\<lambda>b. b) (row m 2)) = 3"
    using m(4) by simp
  ultimately show ?thesis
    using m(1,2) by simp
qed

text \<open>
  C8. Indexing a mask of \<open>n\<close> rows with the full in-order position vector
  \<open>[0, 1, ..., n - 1]\<close> (what \<open>torch.arange n\<close> builds) gathers every row in order and
  so returns the mask itself; a square \<open>seq_len \<times> seq_len\<close> mask is the case
  \<open>c = n\<close>.
\<close>

theorem index_causal_mask_full_positions:
  assumes "shape m = [n, c]" "wf_tensor m"
  shows "index_causal_mask m \<lparr>shape = [n], data = map int [0..<n]\<rparr> = Inr m"
proof -
  have len: "length (data m) = n * c"
    using assms by (simp add: wf_tensor_def)
  have inrange: "list_all (\<lambda>p. - int n \<le> p \<and> p < int n) (map int [0..<n])"
    by (simp add: list_all_iff)
  have "concat (map (\<lambda>p. take c (drop (nat (if p < 0 then p + int n else p) * c) (data m)))
                    (map int [0..<n]))
        = concat (map (\<lambda>k. take c (drop (k * c) (data m))) [0..<n])"
    by (simp add: comp_def)
  also have "\<dots> = data m"
    by (rule concat_rows [OF len])
  finally have d: "concat (map (\<lambda>p. take c (drop (nat (if p < 0 then p + int n else p) * c) (data m)))
                    (map int [0..<n])) = data m" .
  show ?thesis
    using assms(1) inrange d by (simp add: index_causal_mask_def Let_def)
qed

theorem index_causal_mask_full_positions_witness:
  "index_causal_mask \<lparr>shape = [2, 2], data = [True, False, True, True]\<rparr>
       \<lparr>shape = [2], data = map int [0..<2]\<rparr>
     = Inr \<lparr>shape = [2, 2], data = [True, False, True, True]\<rparr>"
  by (rule index_causal_mask_full_positions [where c = 2]) (simp_all add: wf_tensor_def)

section \<open>The sampling unit, row by row\<close>





section \<open>Rows of two-dimensional tensors\<close>









lemma shape_map_tensor: "shape (map_tensor f t) = shape t"
  by (simp add: map_tensor_def)



lemma broadcast_rev_same: "broadcast_rev xs xs = Inr xs"
  by (induction xs) (simp_all add: bindE_def)

lemma broadcast_shapes_same: "broadcast_shapes sh sh = Inr sh"
  by (simp add: broadcast_shapes_def broadcast_rev_same bindE_def)


section \<open>The sampling unit: claim C6\<close>







section \<open>State and exceptions: basic facts\<close>

lemma bindS_liftE_Inl: "bindS (liftE (Inl e)) f s = (Inl e, s)"
  by (simp add: bindS_def liftE_def)

lemma bindS_liftE_Inr: "bindS (liftE (Inr x)) f s = f x s"
  by (simp add: bindS_def liftE_def)

lemma assert_caches_enabled_True:
  "stk_caches_are_enabled (backbone M) (backbone_state s) \<Longrightarrow> assert_caches_enabled M s = (Inr (), s)"
  by (simp add: assert_caches_enabled_def)

lemma assert_caches_enabled_False:
  "\<not> stk_caches_are_enabled (backbone M) (backbone_state s) \<Longrightarrow>
     assert_caches_enabled M s = (Inl (AssertionError ''backbone caches are not enabled''), s)"
  by (simp add: assert_caches_enabled_def)

lemma setup_caches_backbone_state:
  assumes "setup_caches M n s0 = (Inr (), s)"
  shows "\<exists>c. stk_setup_caches (backbone M) n None (backbone_state s0) = (Inr (), c)
             \<and> backbone_state s = c"
  using assms
  by (auto simp: setup_caches_def bindS_def liftE_def split: prod.splits sum.splits)

section \<open>The cache precondition: claim C4\<close>

text \<open>
  C4, as stated, fails: \<open>generate_frame\<close> unpacks \<open>tokens.size()\<close> into three names
  before it asserts that the caches are enabled, so with a \<open>tokens\<close> tensor that is not
  three-dimensional it raises \<open>ValueError\<close>, not the assertion, whatever the caches.
\<close>

theorem caches_not_enabled_counterexample:
  "\<not> stk_caches_are_enabled (backbone toy_model) (backbone_state toy_session)
   \<and> generate_frame toy_model \<lparr>shape = [1, 3], data = [0, 1, 0]\<rparr>
        \<lparr>shape = [1, 3], data = [True, True, True]\<rparr> \<lparr>shape = [1, 1], data = [0]\<rparr>
        1 1 (\<lambda>_ _. 1) toy_session
      = (Inl ValueError, toy_session)"
  by (simp add: generate_frame_def bindS_liftE_Inl toy_model_def toy_stack_def toy_session_def)

text \<open>
  C4, amended. When the backbone caches are not enabled, the single-step forward path
  fails at once with the assertion "backbone caches are not enabled" for every input,
  and so does \<open>generate_frame\<close> for every input whose \<open>tokens\<close> tensor has three
  dimensions (for any other rank it fails before, with the \<open>ValueError\<close> of unpacking
  \<open>tokens.size()\<close>); neither produces a frame and the session is unchanged. When the
  caches are enabled the assertion passes, and they are enabled after a \<open>setup_caches\<close>
  that returned, for a backbone whose own \<open>setup_caches\<close> enables its caches.
\<close>

theorem caches_not_enabled_precondition:
  "(\<not> stk_caches_are_enabled (backbone M) (backbone_state s) \<longrightarrow>
      forward M tokens tokens_mask input_pos s
        = (Inl (AssertionError ''backbone caches are not enabled''), s)
      \<and> (length (shape tokens) = 3 \<longrightarrow>
           generate_frame M tokens tokens_mask input_pos temperature k noise s
             = (Inl (AssertionError ''backbone caches are not enabled''), s)))
   \<and> (length (shape tokens) \<noteq> 3 \<longrightarrow>
        generate_frame M tokens tokens_mask input_pos temperature k noise s = (Inl ValueError, s))
   \<and> (stk_caches_are_enabled (backbone M) (backbone_state s) \<longrightarrow>
        assert_caches_enabled M s = (Inr (), s))
   \<and> ((\<forall>c c'. stk_setup_caches (backbone M) n None c = (Inr (), c')
                 \<longrightarrow> stk_caches_are_enabled (backbone M) c')
        \<longrightarrow> setup_caches M n s0 = (Inr (), s)
        \<longrightarrow> assert_caches_enabled M s = (Inr (), s))"
proof (intro conjI impI)
  assume off: "\<not> stk_caches_are_enabled (backbone M) (backbone_state s)"
  show "forward M tokens tokens_mask input_pos s
        = (Inl (AssertionError ''backbone caches are not enabled''), s)"
    unfolding forward_def
    by (simp add: bindS_def assert_caches_enabled_False [OF off])
  assume "length (shape tokens) = 3"
  then show "generate_frame M tokens tokens_mask input_pos temperature k noise s
        = (Inl (AssertionError ''backbone caches are not enabled''), s)"
    unfolding generate_frame_def
    by (simp add: bindS_liftE_Inr) (simp add: bindS_def assert_caches_enabled_False [OF off])
next
  assume "length (shape tokens) \<noteq> 3"
  then show "generate_frame M tokens tokens_mask input_pos temperature k noise s = (Inl ValueError, s)"
    unfolding generate_frame_def by (simp add: bindS_liftE_Inl)
next
  assume "stk_caches_are_enabled (backbone M) (backbone_state s)"
  then show "assert_caches_enabled M s = (Inr (), s)"
    by (rule assert_caches_enabled_True)
next
  assume contract: "\<forall>c c'. stk_setup_caches (backbone M) n None c = (Inr (), c')
                 \<longrightarrow> stk_caches_are_enabled (backbone M) c'"
    and "setup_caches M n s0 = (Inr (), s)"
  then obtain c where "stk_setup_caches (backbone M) n None (backbone_state s0) = (Inr (), c)"
      "backbone_state s = c"
    using setup_caches_backbone_state by blast
  then have "stk_caches_are_enabled (backbone M) (backbone_state s)"
    using contract by blast
  then show "assert_caches_enabled M s = (Inr (), s)"
    by (rule assert_caches_enabled_True)
qed

lemma toy_ready_eq:
  "toy_ready = \<lparr>backbone_state = Some [], decoder_state = Some [],
     backbone_causal_mask = Some \<lparr>shape = [2, 2], data = [True, False, True, True]\<rparr>,
     decoder_causal_mask = Some \<lparr>shape = [2, 2], data = [True, False, True, True]\<rparr>\<rparr>"
  by (simp add: toy_ready_def setup_caches_def bindS_def liftE_def toy_model_def toy_stack_def
      toy_session_def create_causal_mask_def ones_def tril_def bindE_def tabulate_def elem_def
      Let_def upt_conv_Cons)

theorem caches_not_enabled_precondition_witness:
  "forward toy_model \<lparr>shape = [1, 1, 3], data = [0, 1, 0]\<rparr>
        \<lparr>shape = [1, 1, 3], data = [True, True, True]\<rparr> \<lparr>shape = [1, 1], data = [0]\<rparr> toy_session
      = (Inl (AssertionError ''backbone caches are not enabled''), toy_session)
   \<and> generate_frame toy_model \<lparr>shape = [1, 1, 3], data = [0, 1, 0]\<rparr>
        \<lparr>shape = [1, 1, 3], data = [True, True, True]\<rparr> \<lparr>shape = [1, 1], data = [0]\<rparr>
        1 1 (\<lambda>_ _. 1) toy_session
      = (Inl (AssertionError ''backbone caches are not enabled''), toy_session)
   \<and> generate_frame toy_model \<lparr>shape = [1, 3], data = [0, 1, 0]\<rparr>
        \<lparr>shape = [1, 1, 3], data = [True, True, True]\<rparr> \<lparr>shape = [1, 1], data = [0]\<rparr>
        1 1 (\<lambda>_ _. 1) toy_session
      = (Inl ValueError, toy_session)
   \<and> assert_caches_enabled toy_model toy_ready = (Inr (), toy_ready)"
proof -
  have off: "\<not> stk_caches_are_enabled (backbone toy_model) (backbone_state toy_session)"
    by (simp add: toy_model_def toy_stack_def toy_session_def)
  have contract: "\<forall>c c'. stk_setup_caches (backbone toy_model) 1 None c = (Inr (), c')
                 \<longrightarrow> stk_caches_are_enabled (backbone toy_model) c'"
    by (auto simp: toy_model_def toy_stack_def)
  have ready: "setup_caches toy_model 1 toy_session = (Inr (), toy_ready)"
    by (simp add: toy_ready_def setup_caches_def bindS_def liftE_def toy_model_def toy_stack_def
        create_causal_mask_def ones_def tril_def bindE_def Let_def shape_tabulate)
  note thm3 = caches_not_enabled_precondition [of toy_model toy_session
      "\<lparr>shape = [1, 1, 3], data = [0, 1, 0]\<rparr>" "\<lparr>shape = [1, 1, 3], data = [True, True, True]\<rparr>"
      "\<lparr>shape = [1, 1], data = [0]\<rparr>" 1 1 "\<lambda>_ _. 1" 1 toy_session]
  note thm2 = caches_not_enabled_precondition [of toy_model toy_session
      "\<lparr>shape = [1, 3], data = [0, 1, 0]\<rparr>" "\<lparr>shape = [1, 1, 3], data = [True, True, True]\<rparr>"
      "\<lparr>shape = [1, 1], data = [0]\<rparr>" 1 1 "\<lambda>_ _. 1" 1 toy_session]
  note thmr = caches_not_enabled_precondition [of toy_model toy_ready
      "\<lparr>shape = [1, 1, 3], data = [0, 1, 0]\<rparr>" "\<lparr>shape = [1, 1, 3], data = [True, True, True]\<rparr>"
      "\<lparr>shape = [1, 1], data = [0]\<rparr>" 1 1 "\<lambda>_ _. 1" 1 toy_session]
  show ?thesis
    using thm3 thm2 thmr off contract ready by simp
qed

section \<open>Steps that are blind to the decoder\<close>

lemma blind_liftE: "decoder_blind (liftE r)"
  by (simp add: decoder_blind_def liftE_def)

lemma blind_assert: "decoder_blind (assert_caches_enabled M)"
  by (simp add: decoder_blind_def assert_caches_enabled_def)

lemma blind_get_backbone_causal_mask: "decoder_blind get_backbone_causal_mask"
  by (simp add: decoder_blind_def get_backbone_causal_mask_def split: option.splits)

lemma blind_call_backbone: "decoder_blind (call_backbone M h input_pos msk)"
  by (simp add: decoder_blind_def call_backbone_def split: prod.splits)

lemma agree_bind:
  assumes "decoder_blind m"
    and "\<And>x t. outcomes_agree c1 c2 (f x (t\<lparr>decoder_state := c1\<rparr>)) (f x (t\<lparr>decoder_state := c2\<rparr>))"
  shows "outcomes_agree c1 c2 (bindS m f (s\<lparr>decoder_state := c1\<rparr>))
                               (bindS m f (s\<lparr>decoder_state := c2\<rparr>))"
proof -
  obtain r s' where ms: "m s = (r, s')" by (cases "m s")
  have m1: "m (s\<lparr>decoder_state := c1\<rparr>) = (r, s'\<lparr>decoder_state := c1\<rparr>)"
    and m2: "m (s\<lparr>decoder_state := c2\<rparr>) = (r, s'\<lparr>decoder_state := c2\<rparr>)"
    using assms(1) ms by (simp_all add: decoder_blind_def)
  show ?thesis
  proof (cases r)
    case (Inl e)
    then show ?thesis
      using m1 m2 by (auto simp: bindS_def outcomes_agree_def)
  next
    case (Inr x)
    then show ?thesis
      using m1 m2 assms(2) [of x s'] by (simp add: bindS_def)
  qed
qed

lemma agree_reset:
  assumes "stk_reset_caches (decoder M) c1 = stk_reset_caches (decoder M) c2"
  shows "outcomes_agree c1 c2 (bindS (reset_decoder M) f (s\<lparr>decoder_state := c1\<rparr>))
                               (bindS (reset_decoder M) f (s\<lparr>decoder_state := c2\<rparr>))"
proof -
  have "reset_decoder M (s\<lparr>decoder_state := c1\<rparr>) = reset_decoder M (s\<lparr>decoder_state := c2\<rparr>)"
    using assms by (simp add: reset_decoder_def split: prod.splits)
  then have "bindS (reset_decoder M) f (s\<lparr>decoder_state := c1\<rparr>)
           = bindS (reset_decoder M) f (s\<lparr>decoder_state := c2\<rparr>)"
    by (simp add: bindS_def)
  then show ?thesis by (simp add: outcomes_agree_def)
qed

lemma generate_frame_agree:
  assumes "stk_reset_caches (decoder M) c1 = stk_reset_caches (decoder M) c2"
  shows "outcomes_agree c1 c2
     (generate_frame M tokens tokens_mask input_pos temperature k noise (s\<lparr>decoder_state := c1\<rparr>))
     (generate_frame M tokens tokens_mask input_pos temperature k noise (s\<lparr>decoder_state := c2\<rparr>))"
  unfolding generate_frame_def
  apply (rule agree_bind, (rule blind_liftE blind_assert blind_get_backbone_causal_mask
      blind_call_backbone))+
  apply (rule agree_reset [OF assms])
  done

section \<open>The decoder cache is reset for each frame: claim C1\<close>

text \<open>
  C1. \<open>generate_frame\<close> resets the decoder caches before the first decoder step of the
  frame's codebook loop, and nothing before the reset reads or writes them. So the frame
  does not depend on what the decoder's caches held when the call began: from two
  sessions that differ only in the decoder state, and whose decoder states
  \<open>reset_caches\<close> takes to the same state, \<open>generate_frame\<close> returns the same result
  (the same samples or the same exception), and a call that returns a frame leaves the
  same session, decoder caches included.
\<close>

theorem decoder_cache_reset_each_frame:
  assumes "stk_reset_caches (decoder M) c1 = stk_reset_caches (decoder M) c2"
  shows "fst (generate_frame M tokens tokens_mask input_pos temperature k noise
                (s\<lparr>decoder_state := c1\<rparr>))
         = fst (generate_frame M tokens tokens_mask input_pos temperature k noise
                  (s\<lparr>decoder_state := c2\<rparr>))
       \<and> (\<forall>frame s'.
            generate_frame M tokens tokens_mask input_pos temperature k noise
                (s\<lparr>decoder_state := c1\<rparr>) = (Inr frame, s')
            \<longrightarrow> generate_frame M tokens tokens_mask input_pos temperature k noise
                (s\<lparr>decoder_state := c2\<rparr>) = (Inr frame, s'))"
  using generate_frame_agree [OF assms, of tokens tokens_mask input_pos temperature k noise s]
  by (auto simp: outcomes_agree_def)

section \<open>Evaluating the small model\<close>

lemmas tensor_eval =
  bindE_def tabulate_def elem_def Let_def upt_conv_Cons row_def row_len_def num_rows_def
  map_rows_def map_tensor_def getitem_def select_def slice_def slice_bound_def index_list_def
  unsqueeze_def norm_index_def insert_at_def remove_at_def broadcast_shapes_def belem_def
  binop_def masked_fill_def masked_assign_def size_at_def flatten_def reshape_def repeat_def
  cat2_def sum_dim_def embedding_def linear_layer_def mm_def topk_def argmax_last_def
  arange_def index_causal_mask_def

lemmas sampler_eval =
  sample_topk_def multinomial_sample_one_no_sync_def softmax_def log_softmax_def
  softmax_row_def log_softmax_row_def

lemma sample_topk_toy0:
  "sample_topk (\<lambda>_. 1) \<lparr>shape = [Suc 0, 2], data = [0, 6]\<rparr> 1 1
     = Inr \<lparr>shape = [Suc 0, Suc 0], data = [1]\<rparr>"
  by (simp add: sampler_eval tensor_eval)

lemma sample_topk_toy1:
  "sample_topk (\<lambda>_. 1) \<lparr>shape = [Suc 0, 2], data = [2, 0]\<rparr> 1 1
     = Inr \<lparr>shape = [Suc 0, Suc 0], data = [0]\<rparr>"
  by (simp add: sampler_eval tensor_eval)

lemma toy_model_fields:
  "audio_num_codebooks (args toy_model) = 2"
  "audio_vocab_size (args toy_model) = 2"
  "backbone toy_model = toy_stack"
  "decoder toy_model = toy_stack"
  "text_embeddings toy_model = \<lparr>shape = [1, 1], data = [1]\<rparr>"
  "audio_embeddings toy_model = \<lparr>shape = [4, 1], data = [1, 2, 3, 4]\<rparr>"
  "projection toy_model = \<lparr>shape = [1, 1], data = [1]\<rparr>"
  "codebook0_head toy_model = \<lparr>shape = [2, 1], data = [0, 1]\<rparr>"
  "audio_head toy_model = \<lparr>shape = [1, 1, 2], data = [1, 0]\<rparr>"
  by (simp_all add: toy_model_def)

lemma toy_model1_fields:
  "audio_num_codebooks (args toy_model1) = 1"
  "audio_vocab_size (args toy_model1) = 2"
  "backbone toy_model1 = toy_stack"
  "decoder toy_model1 = toy_stack"
  "text_embeddings toy_model1 = \<lparr>shape = [1, 1], data = [1]\<rparr>"
  "audio_embeddings toy_model1 = \<lparr>shape = [2, 1], data = [1, 2]\<rparr>"
  "projection toy_model1 = \<lparr>shape = [1, 1], data = [1]\<rparr>"
  "codebook0_head toy_model1 = \<lparr>shape = [2, 1], data = [0, 1]\<rparr>"
  "audio_head toy_model1 = \<lparr>shape = [0, 1, 2], data = []\<rparr>"
  by (simp_all add: toy_model1_def toy_model_def)

lemma toy_stack_fields:
  "stk_caches_are_enabled toy_stack c = (c \<noteq> None)"
  "stk_setup_caches toy_stack n len c = (Inr (), Some [])"
  "stk_forward toy_stack h input_pos msk (Some es)
     = (Inr (map_tensor (\<lambda>x. x + sum_list es) h), Some (es @ data h))"
  "stk_reset_caches toy_stack (Some es) = (Inr (), Some [])"
  "stk_max_seq_len toy_stack = 2"
  by (simp_all add: toy_stack_def)

lemma toy_ready1_eq:
  "toy_ready1 = \<lparr>backbone_state = Some [], decoder_state = Some [],
     backbone_causal_mask = Some \<lparr>shape = [2, 2], data = [True, False, True, True]\<rparr>,
     decoder_causal_mask = Some \<lparr>shape = [1, 1], data = [True]\<rparr>\<rparr>"
  by (simp add: toy_ready1_def setup_caches_def bindS_def liftE_def toy_model1_fields
      toy_stack_fields toy_session_def create_causal_mask_def ones_def tril_def bindE_def
      tabulate_def elem_def Let_def upt_conv_Cons)

lemmas state_eval =
  bindS_def liftE_def returnS_def assert_caches_enabled_def get_backbone_causal_mask_def
  get_decoder_causal_mask_def call_backbone_def call_decoder_def reset_decoder_def
  embed_audio_def embed_tokens_def sample_topk_toy0 sample_topk_toy1 toy_stack_fields

lemma generate_frame_toy:
  "generate_frame toy_model \<lparr>shape = [1, 1, 3], data = [0, 1, 0]\<rparr>
        \<lparr>shape = [1, 1, 3], data = [True, True, True]\<rparr> \<lparr>shape = [1, 1], data = [0]\<rparr>
        1 1 (\<lambda>_ _. 1) (toy_ready\<lparr>decoder_state := Some [7]\<rparr>)
   = (Inr \<lparr>shape = [1, 2], data = [1, 0]\<rparr>,
      toy_ready\<lparr>backbone_state := Some [6], decoder_state := Some [6, 2]\<rparr>)"
  by (simp add: generate_frame_def state_eval toy_model_fields toy_ready_eq tensor_eval)

lemma forward_toy1:
  "forward toy_model1 \<lparr>shape = [1, 1, 2], data = [1, 0]\<rparr>
        \<lparr>shape = [1, 1, 2], data = [True, True]\<rparr> \<lparr>shape = [1, 1], data = [0]\<rparr> toy_ready1
   = (Inr \<lparr>shape = [1, 2], data = [0, 3]\<rparr>, toy_ready1\<lparr>backbone_state := Some [3]\<rparr>)"
  by (simp add: forward_def state_eval toy_model1_fields toy_ready1_eq tensor_eval)

theorem decoder_cache_reset_each_frame_witness:
  "generate_frame toy_model \<lparr>shape = [1, 1, 3], data = [0, 1, 0]\<rparr>
        \<lparr>shape = [1, 1, 3], data = [True, True, True]\<rparr> \<lparr>shape = [1, 1], data = [0]\<rparr>
        1 1 (\<lambda>_ _. 1) (toy_ready\<lparr>decoder_state := Some [7]\<rparr>)
     = (Inr \<lparr>shape = [1, 2], data = [1, 0]\<rparr>,
        toy_ready\<lparr>backbone_state := Some [6], decoder_state := Some [6, 2]\<rparr>)
   \<and> generate_frame toy_model \<lparr>shape = [1, 1, 3], data = [0, 1, 0]\<rparr>
        \<lparr>shape = [1, 1, 3], data = [True, True, True]\<rparr> \<lparr>shape = [1, 1], data = [0]\<rparr>
        1 1 (\<lambda>_ _. 1) (toy_ready\<lparr>decoder_state := Some []\<rparr>)
     = (Inr \<lparr>shape = [1, 2], data = [1, 0]\<rparr>,
        toy_ready\<lparr>backbone_state := Some [6], decoder_state := Some [6, 2]\<rparr>)"
proof -
  have same_reset: "stk_reset_caches (decoder toy_model) (Some [7])
      = stk_reset_caches (decoder toy_model) (Some [])"
    by (simp add: toy_model_fields toy_stack_fields)
  from decoder_cache_reset_each_frame [OF same_reset, THEN conjunct2, rule_format,
      OF generate_frame_toy] generate_frame_toy
  show ?thesis by simp
qed

lemma other_decoder_steps:
  "assert_caches_enabled (M\<lparr>decoder := d\<rparr>) = assert_caches_enabled M"
  "call_backbone (M\<lparr>decoder := d\<rparr>) h input_pos msk = call_backbone M h input_pos msk"
  "reset_decoder (M\<lparr>decoder := (decoder M)\<lparr>stk_forward := f\<rparr>\<rparr>) = reset_decoder M"
  "embed_tokens (M\<lparr>decoder := d\<rparr>) tokens = embed_tokens M tokens"
  "embed_audio (M\<lparr>decoder := d\<rparr>) codebook sample = embed_audio M codebook sample"
  by (auto simp: assert_caches_enabled_def call_backbone_def reset_decoder_def embed_tokens_def
      embed_audio_def fun_eq_iff)

lemma generate_frame_other_decoder:
  assumes "audio_num_codebooks (args M) = 1"
  shows "generate_frame (M\<lparr>decoder := (decoder M)\<lparr>stk_forward := f\<rparr>\<rparr>) tokens tokens_mask input_pos
            temperature k noise s
         = generate_frame M tokens tokens_mask input_pos temperature k noise s"
  by (simp add: generate_frame_def assms other_decoder_steps)

lemma generate_frame_single:
  assumes n: "audio_num_codebooks (args M) = 1"
    and run: "generate_frame M tokens tokens_mask input_pos temperature k noise s = (Inr frame, s')"
  shows "\<exists>logits s1. forward M tokens tokens_mask input_pos s = (Inr logits, s1)
              \<and> sample_topk (noise 0) logits k temperature = Inr frame
              \<and> reset_decoder M s1 = (Inr (), s')"
  using run unfolding generate_frame_def forward_def n
  by (auto simp: bindS_def liftE_def returnS_def split: prod.splits sum.splits if_splits)

lemma shape_map_rows_same:
  "shape (map_rows f (row_len t) t) = shape t"
  by (simp add: map_rows_def row_len_def)

lemma masked_fill_shape: "masked_fill t m v = Inr x \<Longrightarrow> shape x = shape t"
  by (auto simp: masked_fill_def bindE_def shape_tabulate split: sum.splits if_splits)

lemma linear_layer_shape:
  "linear_layer w x = Inr y \<Longrightarrow> shape y \<noteq> []"
  by (auto simp: linear_layer_def map_rows_def split: if_splits)

lemma sample_topk_shape:
  assumes "sample_topk noise logits k temperature = Inr x" "shape logits \<noteq> []"
  shows "shape x = butlast (shape logits) @ [1]"
proof -
  define l1 where "l1 = map_tensor (\<lambda>x. x / temperature) logits"
  from assms(1) obtain below sc where
    sc: "masked_fill (map_tensor Fin l1) below NegInf = Inr sc"
    and x: "multinomial_sample_one_no_sync noise (softmax (log_softmax sc)) = Inr x"
    unfolding sample_topk_def l1_def [symmetric] Let_def
    by (auto simp: bindE_def split: sum.splits)
  define probs where "probs = softmax (log_softmax sc)"
  have "shape sc = shape logits"
    using masked_fill_shape [OF sc] by (simp add: shape_map_tensor l1_def)
  then have probs: "shape probs = shape logits"
    by (simp add: probs_def softmax_def log_softmax_def shape_map_rows_same)
  from x obtain pq where
    pq: "binop (\<lambda>p x. p / x) probs \<lparr>shape = shape probs, data = map noise [0..<length (data probs)]\<rparr>
          = Inr pq"
    and ax: "argmax_last pq = Inr x"
    unfolding multinomial_sample_one_no_sync_def probs_def [symmetric] Let_def
    by (auto simp: bindE_def split: sum.splits)
  have "shape pq = shape logits"
    using pq probs by (auto simp: binop_def broadcast_shapes_same bindE_def shape_tabulate)
  then show ?thesis
    using ax assms(2) by (auto simp: argmax_last_def map_rows_def split: if_splits)
qed

section \<open>A single codebook: claim C5\<close>

text \<open>
  C5. When \<open>audio_num_codebooks = 1\<close>, a frame that \<open>generate_frame\<close> returns is
  exactly the codebook-0 sample: what \<open>sample_topk\<close> draws from the logits of the
  codebook-0 head (the logits the single-step forward path returns on the same input),
  one column for each row of the logits. The decoder stack is never run: the session
  after the call is the session after the backbone step with the decoder caches reset,
  and the call does the same whatever function the decoder's forward is.
\<close>

theorem single_codebook_frame:
  assumes "audio_num_codebooks (args M) = 1"
  shows "(generate_frame M tokens tokens_mask input_pos temperature k noise s = (Inr frame, s')
          \<longrightarrow> (\<exists>logits s1. forward M tokens tokens_mask input_pos s = (Inr logits, s1)
                 \<and> sample_topk (noise 0) logits k temperature = Inr frame
                 \<and> shape frame = butlast (shape logits) @ [1]
                 \<and> reset_decoder M s1 = (Inr (), s')))
       \<and> generate_frame (M\<lparr>decoder := (decoder M)\<lparr>stk_forward := f\<rparr>\<rparr>) tokens tokens_mask input_pos
            temperature k noise s
          = generate_frame M tokens tokens_mask input_pos temperature k noise s"
proof (intro conjI impI)
  assume "generate_frame M tokens tokens_mask input_pos temperature k noise s = (Inr frame, s')"
  from generate_frame_single [OF assms this]
  obtain logits s1 where r: "forward M tokens tokens_mask input_pos s = (Inr logits, s1)"
      "sample_topk (noise 0) logits k temperature = Inr frame"
      "reset_decoder M s1 = (Inr (), s')"
    by blast
  have "shape logits \<noteq> []"
    using r(1) unfolding forward_def
    by (auto simp: bindS_def liftE_def split: prod.splits sum.splits dest: linear_layer_shape)
  then have "shape frame = butlast (shape logits) @ [1]"
    by (rule sample_topk_shape [OF r(2)])
  then show "\<exists>logits s1. forward M tokens tokens_mask input_pos s = (Inr logits, s1)
                 \<and> sample_topk (noise 0) logits k temperature = Inr frame
                 \<and> shape frame = butlast (shape logits) @ [1]
                 \<and> reset_decoder M s1 = (Inr (), s')"
    using r by blast
next
  show "generate_frame (M\<lparr>decoder := (decoder M)\<lparr>stk_forward := f\<rparr>\<rparr>) tokens tokens_mask input_pos
            temperature k noise s
          = generate_frame M tokens tokens_mask input_pos temperature k noise s"
    by (rule generate_frame_other_decoder [OF assms])
qed

lemma sample_topk_toy2:
  "sample_topk (\<lambda>_. 1) \<lparr>shape = [Suc 0, 2], data = [0, 3]\<rparr> 1 1
     = Inr \<lparr>shape = [Suc 0, Suc 0], data = [1]\<rparr>"
  by (simp add: sampler_eval tensor_eval)

lemma generate_frame_toy1:
  "generate_frame toy_model1 \<lparr>shape = [1, 1, 2], data = [1, 0]\<rparr>
        \<lparr>shape = [1, 1, 2], data = [True, True]\<rparr> \<lparr>shape = [1, 1], data = [0]\<rparr>
        1 1 (\<lambda>_ _. 1) toy_ready1
   = (Inr \<lparr>shape = [1, 1], data = [1]\<rparr>, toy_ready1\<lparr>backbone_state := Some [3]\<rparr>)"
  by (simp add: generate_frame_def state_eval sample_topk_toy2 toy_model1_fields toy_ready1_eq
      tensor_eval)

theorem single_codebook_frame_witness:
  "audio_num_codebooks (args toy_model1) = 1
   \<and> generate_frame toy_model1 \<lparr>shape = [1, 1, 2], data = [1, 0]\<rparr>
        \<lparr>shape = [1, 1, 2], data = [True, True]\<rparr> \<lparr>shape = [1, 1], data = [0]\<rparr>
        1 1 (\<lambda>_ _. 1) toy_ready1
      = (Inr \<lparr>shape = [1, 1], data = [1]\<rparr>, toy_ready1\<lparr>backbone_state := Some [3]\<rparr>)
   \<and> sample_topk (\<lambda>_. 1) \<lparr>shape = [1, 2], data = [0, 3]\<rparr> 1 1 = Inr \<lparr>shape = [1, 1], data = [1]\<rparr>
   \<and> generate_frame
        (toy_model1\<lparr>decoder := (decoder toy_model1)
                      \<lparr>stk_forward := \<lambda>h input_pos msk c. (Inl RuntimeError, c)\<rparr>\<rparr>)
        \<lparr>shape = [1, 1, 2], data = [1, 0]\<rparr>
        \<lparr>shape = [1, 1, 2], data = [True, True]\<rparr> \<lparr>shape = [1, 1], data = [0]\<rparr>
        1 1 (\<lambda>_ _. 1) toy_ready1
      = (Inr \<lparr>shape = [1, 1], data = [1]\<rparr>, toy_ready1\<lparr>backbone_state := Some [3]\<rparr>)"
proof -
  have n: "audio_num_codebooks (args toy_model1) = 1"
    by (simp add: toy_model1_fields)
  note c5 = single_codebook_frame [OF n, of "\<lparr>shape = [1, 1, 2], data = [1, 0]\<rparr>"
      "\<lparr>shape = [1, 1, 2], data = [True, True]\<rparr>" "\<lparr>shape = [1, 1], data = [0]\<rparr>"
      1 1 "\<lambda>_ _. 1" toy_ready1 "\<lparr>shape = [1, 1], data = [1]\<rparr>"
      "toy_ready1\<lparr>backbone_state := Some [3]\<rparr>" "\<lambda>h input_pos msk c. (Inl RuntimeError, c)"]
  from c5 [THEN conjunct1, rule_format, OF generate_frame_toy1] forward_toy1
  have "sample_topk (\<lambda>_. 1) \<lparr>shape = [1, 2], data = [0, 3]\<rparr> 1 1 = Inr \<lparr>shape = [1, 1], data = [1]\<rparr>"
    by auto
  then show ?thesis
    using n generate_frame_toy1 c5 [THEN conjunct2] by simp
qed

section \<open>Shapes through the embedding fuser\<close>

lemma bindE_InrE:
  assumes "bindE m f = Inr r"
  obtains x where "m = Inr x" "f x = Inr r"
  using assms by (cases m) (simp_all add: bindE_def)

lemma getitem_last_slot:
  assumes "shape t = [b, sq, w]" "getitem t [Colon, Colon, Idx (- 1)] = Inr x"
  shows "0 < w \<and> shape x = [b, sq]"
  using assms
  by (auto simp: getitem_def select_def norm_index_def bindE_def remove_at_def shape_tabulate
      split: if_splits)

lemma getitem_audio_slots:
  assumes "shape t = [b, sq, w]" "getitem t [Colon, Colon, Slice None (Some (- 1))] = Inr x"
  shows "shape x = [b, sq, w - 1]"
  using assms
  by (auto simp: getitem_def slice_def slice_bound_def bindE_def shape_tabulate Let_def
      split: if_splits)

lemma embedding_shape:
  assumes "embedding wt idx = Inr y" "shape wt = [v, d]"
  shows "shape y = shape idx @ [d]"
  using assms by (auto simp: embedding_def Let_def split: if_splits)

lemma unsqueeze_text_shape:
  assumes "unsqueeze t (- 2) = Inr y" "shape t = [b, sq, d]"
  shows "shape y = [b, sq, 1, d]"
  using assms by (auto simp: unsqueeze_def insert_at_def Let_def split: if_splits)

lemma arange_shape: "arange (int n) = Inr y \<Longrightarrow> shape y = [n]"
  by (auto simp: arange_def split: if_splits)

lemma binop_shape: "binop f a c = Inr y \<Longrightarrow> broadcast_shapes (shape a) (shape c) = Inr (shape y)"
  by (auto simp: binop_def bindE_def shape_tabulate split: sum.splits)

lemma broadcast_slots:
  assumes "broadcast_shapes [b, sq, m] [n] = Inr sh"
  shows "((m = n \<or> n = 1) \<and> sh = [b, sq, m]) \<or> (m = 1 \<and> sh = [b, sq, n])"
  using assms by (auto simp: broadcast_shapes_def bindE_def split: if_splits)

lemma size_at_Inr: "size_at t i = Inr x \<Longrightarrow> x = shape t ! i"
  by (auto simp: size_at_def split: if_splits)

lemma reshape_infer_last:
  assumes "reshape t [int b, int sq, int n, - 1] = Inr y"
  shows "b * sq * n \<noteq> 0 \<and> shape y = [b, sq, n, prod_list (shape t) div (b * sq * n)]"
  using assms by (auto simp: reshape_def Let_def split: if_splits)

lemma cat_pair_last:
  assumes "cat [a, c] (- 2) = Inr y" "shape a = [b, sq, n, d]" "shape c = [b', sq', n', d']"
  shows "d = d'"
  using assms
  by (auto simp: cat2_def norm_index_def bindE_def remove_at_def split: if_splits sum.splits)

lemma embed_tokens_slot_mismatch_fails:
  assumes sh: "shape tokens = [b, sq, w]"
    and w1: "w \<noteq> audio_num_codebooks (args M) + 1" and w2: "w \<noteq> 2"
    and built: "tables_built M width" and width: "0 < width"
  shows "\<exists>e. embed_tokens M tokens = Inl e"
proof (cases "embed_tokens M tokens")
  case (Inl e)
  then show ?thesis by blast
next
  case (Inr r)
  define n where "n = audio_num_codebooks (args M)"
  from Inr obtain text_tokens te text_embeds audio_slots codebooks audio_tokens ae b0 sq0 audio_embeds
    where tt: "getitem tokens [Colon, Colon, Idx (- 1)] = Inr text_tokens"
      and te: "embedding (text_embeddings M) text_tokens = Inr te"
      and tx: "unsqueeze te (- 2) = Inr text_embeds"
      and sl: "getitem tokens [Colon, Colon, Slice None (Some (- 1))] = Inr audio_slots"
      and cb: "arange (int n) = Inr codebooks"
      and at: "binop (\<lambda>t c. t + c) audio_slots
                 (map_tensor (\<lambda>c. int (audio_vocab_size (args M)) * c) codebooks) = Inr audio_tokens"
      and ae: "embedding (audio_embeddings M) (flatten audio_tokens) = Inr ae"
      and b0: "size_at tokens 0 = Inr b0" and sq0: "size_at tokens 1 = Inr sq0"
      and rs: "reshape ae [int b0, int sq0, int n, - 1] = Inr audio_embeds"
      and ct: "cat [audio_embeds, text_embeds] (- 2) = Inr r"
    unfolding embed_tokens_def n_def by (elim bindE_InrE) blast
  have wpos: "0 < w" and tts: "shape text_tokens = [b, sq]"
    using getitem_last_slot [OF sh tt] by simp_all
  have "shape te = [b, sq, width]"
    using embedding_shape [OF te] built tts by (simp add: tables_built_def)
  then have txs: "shape text_embeds = [b, sq, 1, width]"
    by (rule unsqueeze_text_shape [OF tx])
  have sls: "shape audio_slots = [b, sq, w - 1]"
    by (rule getitem_audio_slots [OF sh sl])
  have "broadcast_shapes [b, sq, w - 1] [n] = Inr (shape audio_tokens)"
    using binop_shape [OF at] sls arange_shape [OF cb] by (simp add: shape_map_tensor)
  from broadcast_slots [OF this] have n1: "n = 1" and ats: "shape audio_tokens = [b, sq, w - 1]"
    using w1 w2 wpos by (auto simp: n_def)
  have aes: "shape ae = [b * sq * (w - 1), width]"
    using embedding_shape [OF ae] built ats by (simp add: tables_built_def flatten_def)
  have "b0 = b" "sq0 = sq"
    using size_at_Inr [OF b0] size_at_Inr [OF sq0] sh by simp_all
  then have nz: "b * sq \<noteq> 0"
    and "shape audio_embeds = [b, sq, 1, prod_list (shape ae) div (b * sq * 1)]"
    using reshape_infer_last [OF rs] n1 by simp_all
  then have "shape audio_embeds = [b, sq, 1, (w - 1) * width]"
    using aes by simp
  from cat_pair_last [OF ct this txs] have "(w - 1) * width = width" .
  then have "w - 1 = 1" using width by simp
  then show ?thesis using w2 by simp
qed

lemma forward_embed_fails:
  assumes "embed_tokens M tokens = Inl e"
  shows "\<exists>e'. forward M tokens tokens_mask input_pos s = (Inl e', s)"
  using assms
  by (auto simp: forward_def bindS_def liftE_def assert_caches_enabled_def
      get_backbone_causal_mask_def split: option.splits sum.splits)

lemma generate_frame_embed_fails:
  assumes "embed_tokens M tokens = Inl e"
  shows "\<exists>e'. generate_frame M tokens tokens_mask input_pos temperature k noise s = (Inl e', s)"
  using assms
  by (auto simp: generate_frame_def bindS_def liftE_def assert_caches_enabled_def
      get_backbone_causal_mask_def split: option.splits sum.splits)

section \<open>Mismatched slot count: claim C9\<close>

text \<open>
  C9, as stated, fails: a token frame with two slots (one audio slot and the text slot)
  given to a model of two codebooks is not rejected. \<open>tokens[:, :, :-1]\<close> then has a
  last dimension of size one, which torch broadcasts against the codebook offsets
  \<open>audio_vocab_size * arange(audio_num_codebooks)\<close>: the one audio token is embedded
  once for each codebook, and \<open>_embed_tokens\<close> returns a fused embedding of three slots,
  which the forward path takes to logits.
\<close>

theorem slot_count_mismatch_counterexample:
  "shape \<lparr>shape = [1, 1, 2], data = [1, 0 :: int]\<rparr> = [1, 1, 2]
   \<and> 2 \<noteq> audio_num_codebooks (args toy_model) + 1
   \<and> embed_tokens toy_model \<lparr>shape = [1, 1, 2], data = [1, 0]\<rparr>
        = Inr \<lparr>shape = [1, 1, 3, 1], data = [2, 4, 1]\<rparr>
   \<and> forward toy_model \<lparr>shape = [1, 1, 2], data = [1, 0]\<rparr>
        \<lparr>shape = [1, 1, 3], data = [True, True, True]\<rparr> \<lparr>shape = [1, 1], data = [0]\<rparr> toy_ready
      = (Inr \<lparr>shape = [1, 2], data = [0, 7]\<rparr>, toy_ready\<lparr>backbone_state := Some [7]\<rparr>)"
  by (simp add: forward_def state_eval toy_model_fields toy_ready_eq tensor_eval)

text \<open>
  C9, amended. For a model whose two embedding tables have the shapes the constructor
  gives them, of a positive width, and for every three-dimensional token tensor whose
  slot count differs from \<open>audio_num_codebooks + 1\<close> and is not 2, \<open>_embed_tokens\<close>
  raises, and with it the forward path and \<open>generate_frame\<close>, before the backbone is
  run: no fused embedding is returned and the session is unchanged.
\<close>

theorem slot_count_mismatch_fails:
  assumes "shape tokens = [b, sq, w]"
    and "w \<noteq> audio_num_codebooks (args M) + 1" and "w \<noteq> 2"
    and "tables_built M width" and "0 < width"
  shows "(\<exists>e. embed_tokens M tokens = Inl e)
       \<and> (\<exists>e. forward M tokens tokens_mask input_pos s = (Inl e, s))
       \<and> (\<exists>e. generate_frame M tokens tokens_mask input_pos temperature k noise s = (Inl e, s))"
proof -
  from embed_tokens_slot_mismatch_fails [OF assms]
  obtain e where e: "embed_tokens M tokens = Inl e" by blast
  show ?thesis
    using e forward_embed_fails [OF e] generate_frame_embed_fails [OF e] by blast
qed

theorem slot_count_mismatch_fails_witness:
  "embed_tokens toy_model \<lparr>shape = [1, 1, 4], data = [1, 0, 0, 0]\<rparr> = Inl RuntimeError
   \<and> (\<exists>e. forward toy_model \<lparr>shape = [1, 1, 4], data = [1, 0, 0, 0]\<rparr>
        \<lparr>shape = [1, 1, 3], data = [True, True, True]\<rparr> \<lparr>shape = [1, 1], data = [0]\<rparr> toy_ready
      = (Inl e, toy_ready))
   \<and> (\<exists>e. generate_frame toy_model \<lparr>shape = [1, 1, 4], data = [1, 0, 0, 0]\<rparr>
        \<lparr>shape = [1, 1, 3], data = [True, True, True]\<rparr> \<lparr>shape = [1, 1], data = [0]\<rparr>
        1 1 (\<lambda>_ _. 1) toy_ready
      = (Inl e, toy_ready))"
proof -
  have h: "shape \<lparr>shape = [1, 1, 4], data = [1, 0, 0, 0 :: int]\<rparr> = [1, 1, 4]"
    "4 \<noteq> audio_num_codebooks (args toy_model) + 1" "(4::nat) \<noteq> 2"
    "tables_built toy_model 1" "(0::nat) < 1"
    by (simp_all add: tables_built_def toy_model_def)
  have "embed_tokens toy_model \<lparr>shape = [1, 1, 4], data = [1, 0, 0, 0]\<rparr> = Inl RuntimeError"
    by (simp add: embed_tokens_def toy_model_fields tensor_eval)
  then show ?thesis
    using slot_count_mismatch_fails [OF h] by blast
qed

section \<open>Rules for the steps of the batch driver\<close>

lemma wp_bindS: "wp (bindS m f) w Q E = wp m w (\<lambda>x w'. wp (f x) w' Q E) E"
  by (simp add: wp_def bindS_def split: prod.splits sum.splits)

lemma wp_liftE: "wp (liftE r) w Q E = (case r of Inl e \<Rightarrow> E e w | Inr x \<Rightarrow> Q x w)"
  by (simp add: wp_def liftE_def split: sum.splits)

lemma wp_returnS: "wp (returnS x) w Q E = Q x w"
  by (simp add: wp_def returnS_def)

lemma wp_if: "wp (if c then a else b) w Q E = (if c then wp a w Q E else wp b w Q E)"
  by simp

lemma wp_get:
  "wp (get_int a) w Q E = Q (int_cells (snd w) ! a) w"
  "wp (get_bool a) w Q' E = Q' (bool_cells (snd w) ! a) w"
  "wp (get_float a) w Q'' E = Q'' (float_cells (snd w) ! a) w"
  by (simp_all add: wp_def get_int_def get_bool_def get_float_def)

lemma wp_new:
  "wp (new_int v) w Q E
     = Q (length (int_cells (snd w))) (fst w, (snd w)\<lparr>int_cells := int_cells (snd w) @ [v]\<rparr>)"
  "wp (new_bool u) w Q E
     = Q (length (bool_cells (snd w))) (fst w, (snd w)\<lparr>bool_cells := bool_cells (snd w) @ [u]\<rparr>)"
  "wp (new_float x) w Q E
     = Q (length (float_cells (snd w))) (fst w, (snd w)\<lparr>float_cells := float_cells (snd w) @ [x]\<rparr>)"
  by (simp_all add: wp_def new_int_def new_bool_def new_float_def)

lemma wp_set_float:
  "wp (set_float a x) w Q E
     = Q () (fst w, (snd w)\<lparr>float_cells := (float_cells (snd w))[a := x]\<rparr>)"
  by (simp add: wp_def set_float_def)

lemma wp_in_session:
  "wp (in_session m) w Q E
     = (case m (fst w) of (Inl e, s') \<Rightarrow> E e (s', snd w) | (Inr x, s') \<Rightarrow> Q x (s', snd w))"
  by (simp add: wp_def in_session_def split: prod.splits sum.splits)

section \<open>The second iteration of the batch driver\<close>

lemma embed_tokens_low_rank:
  "length (shape tokens) < 3 \<Longrightarrow> embed_tokens M tokens = Inl IndexError"
  by (simp add: embed_tokens_def getitem_def bindE_def)

lemma forward_low_rank:
  "length (shape tokens) < 3 \<Longrightarrow> \<exists>e. forward M tokens tokens_mask input_pos s = (Inl e, s)"
  by (rule forward_embed_fails [OF embed_tokens_low_rank])

lemma cat_zeros_rank:
  assumes "cat [a, \<lparr>shape = [1, 1], data = [z]\<rparr>] 1 = Inr y"
  shows "length (shape y) = 2"
  using assms
  by (auto simp: cat2_def norm_index_def bindE_def shape_tabulate split: if_splits sum.splits)

lemma frames_loop_low_rank:
  assumes "length (shape (int_cells (snd w) ! curr_tokens)) < 3"
  shows "wp (frames_loop M temperature k draw (i # rest)
              (curr_tokens, curr_tokens_mask, curr_pos, batch_samples)) w
           (\<lambda>_ _. False) (\<lambda>_ _. True)"
proof -
  obtain e where "forward M (int_cells (snd w) ! curr_tokens) (bool_cells (snd w) ! curr_tokens_mask)
      (int_cells (snd w) ! curr_pos) (fst w) = (Inl e, fst w)"
    using forward_low_rank [OF assms] by blast
  then show ?thesis
    by (subst frames_loop.simps(2)) (simp add: wp_bindS wp_get wp_in_session)
qed

lemma wp_liftE_all:
  "wp (liftE r) w Q E = ((\<forall>e. r = Inl e \<longrightarrow> E e w) \<and> (\<forall>x. r = Inr x \<longrightarrow> Q x w))"
  by (cases r) (simp_all add: wp_liftE)

lemma wp_in_session_all:
  "wp (in_session m) w Q E
     = ((\<forall>e s'. m (fst w) = (Inl e, s') \<longrightarrow> E e (s', snd w))
        \<and> (\<forall>x s'. m (fst w) = (Inr x, s') \<longrightarrow> Q x (s', snd w)))"
  by (auto simp: wp_in_session split: prod.splits sum.splits)

lemmas wp_steps =
  wp_bindS wp_liftE_all wp_returnS wp_if wp_get wp_new wp_set_float wp_in_session_all

lemma wp_weaken:
  "wp m w Q E \<Longrightarrow> (\<And>x w'. Q x w' \<Longrightarrow> Q' x w') \<Longrightarrow> (\<And>e w'. E e w' \<Longrightarrow> E' e w') \<Longrightarrow> wp m w Q' E'"
  by (auto simp: wp_def split: prod.splits sum.splits)

lemma frames_loop_low_rank':
  assumes "length (shape (int_cells (snd w) ! curr_tokens)) < 3"
  shows "wp (frames_loop M temperature k draw (i # rest)
              (curr_tokens, curr_tokens_mask, curr_pos, batch_samples)) w
           (\<lambda>samples _. samples = other) (\<lambda>_ _. True)"
  by (rule wp_weaken [OF frames_loop_low_rank [OF assms]]) simp_all

lemma frames_loop_twice:
  "wp (frames_loop M temperature k draw (i # j # rest)
         (curr_tokens, curr_tokens_mask, curr_pos, batch_samples)) w
      (\<lambda>samples _. samples = batch_samples) (\<lambda>_ _. True)"
  apply (subst frames_loop.simps(2))
  apply (simp add: wp_steps frames_loop_low_rank' cat_zeros_rank nth_append del: cat.simps)
  done

lemma upt_two: "2 \<le> n \<Longrightarrow> [0..<nat n] = 0 # 1 # [2..<nat n]"
  by (simp add: upt_conv_Cons numeral_2_eq_2)

lemma upt_one: "0 < n \<Longrightarrow> [0..<nat n] = 0 # [1..<nat n]"
  by (simp add: upt_conv_Cons)

lemma frames_try_two:
  assumes "2 \<le> num_frames"
  shows "wp (frames_try M tokens tokens_mask pos temperature k num_frames draw) w
           (\<lambda>r _. r = None) (\<lambda>_ _. True)"
  unfolding frames_try_def upt_two [OF assms]
  apply (simp add: wp_bindS wp_get wp_new)
  apply (rule wp_weaken [OF frames_loop_twice])
   apply (simp_all add: wp_returnS)
  done

lemma generate_frames_batch_wp:
  assumes "wp (frames_try M tokens tokens_mask pos temperature k num_frames draw) w
             (\<lambda>r _. r = None) (\<lambda>_ _. True)"
  shows "fst (generate_frames_batch M tokens tokens_mask pos temperature k num_frames draw w) = None"
  using assms
  by (auto simp: generate_frames_batch_def wp_def split: prod.splits sum.splits)

lemma frames_loop_forward_fails:
  assumes "forward M (int_cells (snd w) ! curr_tokens) (bool_cells (snd w) ! curr_tokens_mask)
      (int_cells (snd w) ! curr_pos) (fst w) = (Inl e, s')"
  shows "wp (frames_loop M temperature k draw (i # rest)
              (curr_tokens, curr_tokens_mask, curr_pos, batch_samples)) w
           (\<lambda>_ _. False) (\<lambda>_ _. True)"
  using assms
  by (subst frames_loop.simps(2)) (simp add: wp_bindS wp_get wp_in_session)

lemma frames_try_forward_fails:
  assumes "forward M (int_cells (snd w) ! tokens) (bool_cells (snd w) ! tokens_mask)
      (int_cells (snd w) ! pos) (fst w) = (Inl e, s')"
    and "0 < num_frames"
    and "pos < length (int_cells (snd w))"
  shows "wp (frames_try M tokens tokens_mask pos temperature k num_frames draw) w
           (\<lambda>r _. r = None) (\<lambda>_ _. True)"
  unfolding frames_try_def upt_one [OF assms(2)]
  apply (simp add: wp_bindS wp_get wp_new)
  apply (rule wp_weaken [OF frames_loop_forward_fails [where e = e and s' = s']])
    apply (simp_all add: nth_append assms(1,3))
  done

section \<open>The cells of the caller are never written\<close>

lemma extends_refl: "extends xs xs"
  by (simp add: extends_def)

lemma extends_append: "extends xs ys \<Longrightarrow> extends xs (ys @ zs)"
  by (simp add: extends_def)

lemma extends_update: "extends xs ys \<Longrightarrow> length xs \<le> a \<Longrightarrow> extends xs (ys[a := v])"
  by (simp add: extends_def)

lemma extends_nth: "extends xs ys \<Longrightarrow> a < length xs \<Longrightarrow> ys ! a = xs ! a"
  by (metis extends_def nth_take)

lemma extends_length: "extends xs ys \<Longrightarrow> length xs \<le> length ys"
  by (simp add: extends_def)

lemma frames_loop_extends:
  assumes "store_extends st0 (snd w)"
  shows "wp (frames_loop M temperature k draw steps
              (curr_tokens, curr_tokens_mask, curr_pos, batch_samples)) w
           (\<lambda>_ w'. store_extends st0 (snd w')) (\<lambda>_ w'. store_extends st0 (snd w'))"
  using assms
proof (induction steps arbitrary: curr_tokens curr_tokens_mask curr_pos batch_samples w)
  case Nil
  then show ?case
    by (simp add: frames_loop.simps(1) wp_returnS)
next
  case (Cons i rest)
  have grow: "length (float_cells st0) \<le> length (float_cells (snd w))"
    using Cons.prems by (simp add: store_extends_def extends_length)
  have step: "\<And>w' ct cm cp bs. store_extends st0 (snd w') \<Longrightarrow>
      wp (frames_loop M temperature k draw rest (ct, cm, cp, bs)) w'
        (\<lambda>_ w'. store_extends st0 (snd w')) (\<lambda>_ w'. store_extends st0 (snd w'))"
    by (rule Cons.IH)
  note step' = step [unfolded store_extends_def]
  show ?case
    apply (subst frames_loop.simps(2))
    apply (insert Cons.prems grow)
    apply (simp add: wp_steps step' store_extends_def extends_append extends_update del: cat.simps)
    done
qed

lemma frames_try_extends:
  "wp (frames_try M tokens tokens_mask pos temperature k num_frames draw) w
     (\<lambda>_ w'. store_extends (snd w) (snd w')) (\<lambda>_ w'. store_extends (snd w) (snd w'))"
  unfolding frames_try_def
  apply (simp add: wp_bindS wp_get wp_new)
  apply (rule wp_weaken [OF frames_loop_extends [where ?st0.0 = "snd w"]])
    apply (simp add: store_extends_def extends_refl extends_append)
   apply (simp add: wp_def bindS_def liftE_def returnS_def split: sum.splits)
  apply simp
  done

lemma generate_frames_batch_extends:
  "store_extends (snd w)
     (snd (snd (generate_frames_batch M tokens tokens_mask pos temperature k num_frames draw w)))"
  using frames_try_extends [of M tokens tokens_mask pos temperature k num_frames draw w]
  by (auto simp: generate_frames_batch_def wp_def split: prod.splits sum.splits)

lemma generate_frame_forward_fails:
  assumes "forward M tokens tokens_mask input_pos s = (Inl e, s')"
    and "length (shape tokens) = 3"
  shows "generate_frame M tokens tokens_mask input_pos temperature k noise s = (Inl e, s')"
  using assms unfolding generate_frame_def forward_def
  by (auto simp: bindS_def liftE_def split: prod.splits sum.splits)

section \<open>Error contracts of the two entry points: claim C2\<close>

text \<open>
  C2. On every input on which the backbone step they share (the single-step forward
  path, on the caller's tensors) raises an exception, \<open>generate_frame\<close> raises that
  exception (or, for a \<open>tokens\<close> tensor that is not three-dimensional, the
  \<open>ValueError\<close> of its first line), while \<open>generate_frames_batch\<close>, asked for at least one
  frame, returns \<open>None\<close>; and whatever exception its \<open>try\<close> block raises,
  \<open>generate_frames_batch\<close> returns \<open>None\<close>, in the state the exception left.
\<close>

theorem asymmetric_error_contracts:
  assumes "forward M (int_cells st ! tokens) (bool_cells st ! tokens_mask) (int_cells st ! pos) s
             = (Inl e, s')"
    and "pos < length (int_cells st)"
  shows "(length (shape (int_cells st ! tokens)) = 3 \<longrightarrow>
            generate_frame M (int_cells st ! tokens) (bool_cells st ! tokens_mask)
              (int_cells st ! pos) temperature k noise s = (Inl e, s'))
       \<and> (length (shape (int_cells st ! tokens)) \<noteq> 3 \<longrightarrow>
            generate_frame M (int_cells st ! tokens) (bool_cells st ! tokens_mask)
              (int_cells st ! pos) temperature k noise s = (Inl ValueError, s))
       \<and> (0 < num_frames \<longrightarrow>
            fst (generate_frames_batch M tokens tokens_mask pos temperature' k' num_frames draw (s, st))
              = None)
       \<and> (frames_try M tokens tokens_mask pos temperature' k' num_frames draw (s, st) = (Inl e2, w')
            \<longrightarrow> generate_frames_batch M tokens tokens_mask pos temperature' k' num_frames draw (s, st)
                  = (None, w'))"
proof (intro conjI impI)
  assume "length (shape (int_cells st ! tokens)) = 3"
  then show "generate_frame M (int_cells st ! tokens) (bool_cells st ! tokens_mask)
              (int_cells st ! pos) temperature k noise s = (Inl e, s')"
    by (rule generate_frame_forward_fails [OF assms(1)])
next
  assume "length (shape (int_cells st ! tokens)) \<noteq> 3"
  then show "generate_frame M (int_cells st ! tokens) (bool_cells st ! tokens_mask)
              (int_cells st ! pos) temperature k noise s = (Inl ValueError, s)"
    unfolding generate_frame_def by (simp add: bindS_liftE_Inl)
next
  assume "0 < num_frames"
  then have "wp (frames_try M tokens tokens_mask pos temperature' k' num_frames draw) (s, st)
           (\<lambda>r _. r = None) (\<lambda>_ _. True)"
    using assms by (intro frames_try_forward_fails [where e = e and s' = s']) simp_all
  then show "fst (generate_frames_batch M tokens tokens_mask pos temperature' k' num_frames draw (s, st))
              = None"
    by (rule generate_frames_batch_wp)
next
  assume "frames_try M tokens tokens_mask pos temperature' k' num_frames draw (s, st) = (Inl e2, w')"
  then show "generate_frames_batch M tokens tokens_mask pos temperature' k' num_frames draw (s, st)
                  = (None, w')"
    by (simp add: generate_frames_batch_def)
qed

theorem asymmetric_error_contracts_witness:
  "generate_frame toy_model \<lparr>shape = [1, 1, 3], data = [0, 1, 0]\<rparr>
        \<lparr>shape = [1, 1, 3], data = [True, True, True]\<rparr> \<lparr>shape = [1, 1], data = [0]\<rparr>
        1 1 (\<lambda>_ _. 1) toy_session
      = (Inl (AssertionError ''backbone caches are not enabled''), toy_session)
   \<and> fst (generate_frames_batch toy_model 0 0 1 1 1 5 (\<lambda>_ _. 1) (toy_session, toy_store)) = None"
proof -
  have cells: "int_cells toy_store ! 0 = \<lparr>shape = [1, 1, 3], data = [0, 1, 0]\<rparr>"
    "bool_cells toy_store ! 0 = \<lparr>shape = [1, 1, 3], data = [True, True, True]\<rparr>"
    "int_cells toy_store ! 1 = \<lparr>shape = [1, 1], data = [0]\<rparr>"
    by (simp_all add: toy_store_def)
  have fails: "forward toy_model (int_cells toy_store ! 0) (bool_cells toy_store ! 0)
      (int_cells toy_store ! 1) toy_session
      = (Inl (AssertionError ''backbone caches are not enabled''), toy_session)"
    by (simp add: forward_def bindS_def assert_caches_enabled_def toy_model_fields
        toy_stack_fields toy_session_def)
  have valid: "1 < length (int_cells toy_store)"
    by (simp add: toy_store_def)
  note c2 = asymmetric_error_contracts [OF fails valid, of 1 1 "\<lambda>_ _. 1" 5 1 1 "\<lambda>_ _. 1"]
  show ?thesis
    using c2 [THEN conjunct1] c2 [THEN conjunct2, THEN conjunct2, THEN conjunct1]
    by (simp add: toy_store_def)
qed

section \<open>Early stop of the batch driver: claim C3\<close>

text \<open>
  C3 describes a run of \<open>generate_frames_batch\<close> that reaches a third iteration. The
  code has no such run. After the first accepted sample the method rebuilds its input
  as \<open>torch.cat([sample, zeros(1, 1)], dim=1)\<close>, a two-dimensional tensor; the second
  call of \<open>forward\<close> then raises \<open>IndexError\<close> at \<open>tokens[:, :, -1]\<close> in
  \<open>_embed_tokens\<close>, and \<open>except Exception\<close> turns it into \<open>None\<close>. So whenever two or
  more frames are asked for, the result is \<open>None\<close>, whatever is drawn: never the two
  samples gathered before the sentinel.
\<close>

theorem generate_frames_batch_second_iteration_fails:
  assumes "2 \<le> num_frames"
  shows "fst (generate_frames_batch M tokens tokens_mask pos temperature k num_frames draw w) = None"
  by (rule generate_frames_batch_wp [OF frames_try_two [OF assms]])

section \<open>The arguments of the batch driver are left as they were: claim C10\<close>

text \<open>
  C10. Whatever \<open>generate_frames_batch\<close> returns, the store after the call extends the
  store before it: every tensor that existed before the call is still there with the
  same content. In particular the caller's \<open>tokens\<close>, \<open>tokens_mask\<close> and \<open>pos\<close> are
  unchanged: the method reads them once, to clone them, allocates every tensor it
  builds, and its one in-place write goes to the \<open>logits\<close> it has just allocated.
\<close>

theorem generate_frames_batch_leaves_arguments:
  assumes "generate_frames_batch M tokens tokens_mask pos temperature k num_frames draw (s, st)
             = (r, (s', st'))"
  shows "store_extends st st'
       \<and> (tokens < length (int_cells st) \<longrightarrow> int_cells st' ! tokens = int_cells st ! tokens)
       \<and> (tokens_mask < length (bool_cells st)
            \<longrightarrow> bool_cells st' ! tokens_mask = bool_cells st ! tokens_mask)
       \<and> (pos < length (int_cells st) \<longrightarrow> int_cells st' ! pos = int_cells st ! pos)"
proof -
  have ext: "store_extends st st'"
    using generate_frames_batch_extends
      [of "(s, st)" M tokens tokens_mask pos temperature k num_frames draw] assms
    by simp
  then show ?thesis
    by (auto simp: store_extends_def extends_nth)
qed

lemma forward_toy:
  "forward toy_model \<lparr>shape = [Suc 0, Suc 0, 3], data = [0, 1, 0]\<rparr>
        \<lparr>shape = [Suc 0, Suc 0, 3], data = [True, True, True]\<rparr>
        \<lparr>shape = [Suc 0, Suc 0], data = [0]\<rparr> toy_ready
   = (Inr \<lparr>shape = [Suc 0, 2], data = [0, 6]\<rparr>, toy_ready\<lparr>backbone_state := Some [6]\<rparr>)"
  by (simp add: forward_def state_eval toy_model_fields toy_ready_eq tensor_eval)

lemmas store_eval =
  in_session_def new_int_def new_bool_def new_float_def get_int_def get_bool_def get_float_def
  set_float_def toy_store_def

lemma generate_frames_batch_toy_one:
  "fst (generate_frames_batch toy_model 0 0 1 1 1 1 (\<lambda>i r. if i = 2 then 0 else 1)
          (toy_ready, toy_store))
     = Some \<lparr>shape = [1, 1], data = [1]\<rparr>"
  by (simp add: generate_frames_batch_def frames_try_def frames_loop.simps store_eval
      bindS_def liftE_def returnS_def forward_toy multinomial_def softmax_def xdiv_def
      less_eq_xreal_def less_xreal_def tensor_eval)

theorem generate_frames_batch_second_iteration_fails_witness:
  "fst (generate_frames_batch toy_model 0 0 1 1 1 5 (\<lambda>i r. if i = 2 then 0 else 1)
          (toy_ready, toy_store)) = None
   \<and> fst (generate_frames_batch toy_model 0 0 1 1 1 1 (\<lambda>i r. if i = 2 then 0 else 1)
          (toy_ready, toy_store)) = Some \<lparr>shape = [1, 1], data = [1]\<rparr>"
proof -
  have five: "(2::int) \<le> 5" by simp
  show ?thesis
    using generate_frames_batch_second_iteration_fails [OF five] generate_frames_batch_toy_one
    by simp
qed

theorem generate_frames_batch_leaves_arguments_witness:
  "int_cells (snd (snd (generate_frames_batch toy_model 0 0 1 1 1 1 (\<lambda>_ _. 1)
       (toy_ready, toy_store)))) ! 0 = \<lparr>shape = [1, 1, 3], data = [0, 1, 0]\<rparr>
   \<and> bool_cells (snd (snd (generate_frames_batch toy_model 0 0 1 1 1 1 (\<lambda>_ _. 1)
       (toy_ready, toy_store)))) ! 0 = \<lparr>shape = [1, 1, 3], data = [True, True, True]\<rparr>
   \<and> int_cells (snd (snd (generate_frames_batch toy_model 0 0 1 1 1 1 (\<lambda>_ _. 1)
       (toy_ready, toy_store)))) ! 1 = \<lparr>shape = [1, 1], data = [0]\<rparr>"
proof -
  obtain r s' st' where run: "generate_frames_batch toy_model 0 0 1 1 1 1 (\<lambda>_ _. 1)
       (toy_ready, toy_store) = (r, (s', st'))"
    by (metis prod.collapse)
  from generate_frames_batch_leaves_arguments [OF run]
  have "int_cells st' ! 0 = int_cells toy_store ! 0"
    "bool_cells st' ! 0 = bool_cells toy_store ! 0"
    "int_cells st' ! 1 = int_cells toy_store ! 1"
    by (simp_all add: toy_store_def)
  then have "int_cells st' ! 0 = \<lparr>shape = [1, 1, 3], data = [0, 1, 0]\<rparr>
      \<and> bool_cells st' ! 0 = \<lparr>shape = [1, 1, 3], data = [True, True, True]\<rparr>
      \<and> int_cells st' ! 1 = \<lparr>shape = [1, 1], data = [0]\<rparr>"
    by (simp add: toy_store_def)
  then show ?thesis
    unfolding run snd_conv .
qed

end
